theory Spec2Isabelle
  imports Main "HOL-Library.Word"
begin

section \<open>The ClusterDeployment controller of hive, as a shallow embedding\<close>

text \<open>
  The source is \<^verbatim>\<open>pkg/controller/clusterdeployment/clusterdeployment_controller.go\<close>.
  One reconciliation pass is modelled as a pure function of
  \<^item> the environment \<open>env\<close>: the clock and the collaborators whose code is outside the
    controller (duration parsing, the job generators, the hash, the kubeconfig fix-up, the
    remote cluster), each taken as a parameter;
  \<^item> the store \<open>store\<close>: what each \<^verbatim>\<open>Get\<close>/\<^verbatim>\<open>List\<close> of the pass answers
    (found, not found, or another failure) and which writes the store refuses.
  The pass returns the list of writes it issued, in order, and the pair
  \<^verbatim>\<open>(reconcile.Result, error)\<close> it returned. Logging and the Prometheus metrics are
  not modelled.
\<close>

subsection \<open>Data\<close>

text \<open>\<^verbatim>\<open>time.Duration\<close> is an int64 count of nanoseconds; a point in time is an
  integer count of nanoseconds. A timestamp that is nil or zero is \<open>None\<close>.\<close>

type_synonym duration = "64 word"
type_synonym timestamp = "int option"

datatype error =
    Store_Error
  | Duration_Parse_Error
  | No_SSH_Key
  | Only_AWS_Managed_DNS
  | Kubeconfig_Cluster_Missing
  | Not_Found_Error
  | Collaborator_Error
  | Panic

text \<open>\<^verbatim>\<open>reconcile.Result{}\<close> and \<^verbatim>\<open>reconcile.Result{RequeueAfter: d}\<close>.\<close>

datatype result = Done | Requeue_After duration

type_synonym outcome = "result \<times> error option"

text \<open>The answer of a \<^verbatim>\<open>Get\<close>: \<^verbatim>\<open>err == nil\<close>, \<^verbatim>\<open>errors.IsNotFound(err)\<close>, or any
  other error.\<close>

datatype 'a fetched = Found 'a | Not_Found | Fetch_Failed

type_synonym key = "string \<times> string" \<comment> \<open>namespace, name\<close>

record cluster_ingress =
  ing_name :: string
  ing_domain :: string

record aws_platform =
  aws_region :: string
  aws_user_tags :: "(string \<times> string) list"

text \<open>\<^verbatim>\<open>ClusterDeploymentSpec\<close>. Its declaration is outside the given sources; the fields
  are those the controller reads. \<^verbatim>\<open>Spec.AWS\<close> and \<^verbatim>\<open>Spec.Platform.AWS\<close> are the same
  field (\<^verbatim>\<open>Platform\<close> is embedded), as the test fixture \<^verbatim>\<open>testClusterDeployment\<close>
  builds it.\<close>

record cd_spec =
  sp_cluster_name :: string
  sp_base_domain :: string
  sp_ingress :: "cluster_ingress list"
  sp_installer_image :: string
  sp_release_image :: string
  sp_hive_image :: string
  sp_image_set :: "string option"
  sp_ssh_key :: "string option"
  sp_pull_secret :: string
  sp_manage_dns :: bool
  sp_preserve_on_delete :: bool
  sp_aws :: "aws_platform option"
  sp_secrets_aws :: "string option"

datatype condition_status = Condition_True | Condition_False | Condition_Unknown

record condition =
  c_type :: string
  c_status :: condition_status
  c_reason :: string
  c_message :: string

record cd_status =
  st_installed :: bool
  st_installer_image :: "string option"
  st_infra_id :: string
  st_cluster_id :: string
  st_install_restarts :: int
  st_admin_kubeconfig_secret :: string
  st_api_url :: string
  st_web_console_url :: string
  st_conditions :: "condition list"

text \<open>Modelled from the spec: the finalizers of an object are a "set of finalizer tokens"
  (section 3); \<^verbatim>\<open>controllerutils.HasFinalizer\<close>, \<^verbatim>\<open>AddFinalizer\<close> and
  \<^verbatim>\<open>DeleteFinalizer\<close>, whose code is outside the given sources, are membership,
  insertion and removal.\<close>

record cluster_deployment =
  cd_name :: string
  cd_namespace :: string
  cd_generation :: int
  cd_creation_timestamp :: timestamp
  cd_deletion_timestamp :: timestamp
  cd_finalizers :: "string set"
  cd_annotations :: "string \<rightharpoonup> string"
  cd_spec :: cd_spec
  cd_status :: cd_status

record cluster_image_set =
  is_name :: string
  is_hive_image :: "string option"
  is_release_image :: "string option"
  is_installer_image :: "string option"

text \<open>A \<^verbatim>\<open>batchv1.Job\<close>. \<open>job_annotations = None\<close> is the nil map. \<open>job_successful\<close> and
  \<open>job_failed\<close> stand for what \<^verbatim>\<open>controllerutils.IsSuccessful\<close> and
  \<^verbatim>\<open>controllerutils.IsFailed\<close> (outside the given sources) answer for the job;
  \<open>job_succeeded\<close> is \<^verbatim>\<open>Status.Succeeded\<close>.\<close>

record job =
  job_name :: string
  job_namespace :: string
  job_annotations :: "(string \<rightharpoonup> string) option"
  job_deletion_timestamp :: timestamp
  job_owner :: "string option"
  job_spec :: string
  job_successful :: bool
  job_failed :: bool
  job_succeeded :: int

record config_map =
  cm_name :: string
  cm_namespace :: string
  cm_annotations :: "(string \<rightharpoonup> string) option"
  cm_owner :: "string option"

record dns_zone =
  dz_name :: string
  dz_namespace :: string
  dz_deletion_timestamp :: timestamp
  dz_owner :: "string option"
  dz_zone :: string
  dz_link_to_parent :: bool
  dz_account_secret :: string
  dz_region :: string
  dz_additional_tags :: "(string \<times> string) set"
  dz_conditions :: "(string \<times> condition_status) list"

record deprovision_request =
  dr_name :: string
  dr_namespace :: string
  dr_owner :: "string option"
  dr_infra_id :: string
  dr_cluster_id :: string
  dr_region :: string
  dr_credentials :: "string option"
  dr_completed :: bool

text \<open>A \<^verbatim>\<open>corev1.Secret\<close>: \<open>None\<close> is the nil \<^verbatim>\<open>Data\<close> map. Byte strings are
  \<open>string\<close>; a nil and an empty byte string are not told apart.\<close>

record secret =
  sec_data :: "(string \<rightharpoonup> string) option"

datatype propagation = Default_Propagation | Foreground

text \<open>The writes a pass can issue to the store.\<close>

datatype action =
    Update_CD cluster_deployment
  | Status_Update cluster_deployment
  | Delete_CD cluster_deployment
  | Create_Job job
  | Delete_Job job propagation
  | Create_ConfigMap config_map
  | Update_ConfigMap config_map
  | Create_DNSZone dns_zone
  | Delete_DNSZone dns_zone propagation
  | Create_Request deprovision_request
  | Update_Secret key secret
  | Setup_ServiceAccount string

datatype owned = Owned_Job | Owned_ConfigMap | Owned_DNSZone | Owned_Request

text \<open>The environment of a pass: the clock and the collaborators outside the given
  sources, as parameters. \<open>getInstallJobName\<close> is \<^verbatim>\<open>install.GetInstallJobName\<close>, which
  derives the name of the install job from the name of the deployment;
  \<open>controllerReferenceError\<close> is the error of \<^verbatim>\<open>controllerutil.SetControllerReference\<close>
  for an object of the given kind; \<open>remoteClusterAPIClientBuilder\<close> answers an error or a
  client, and the client is what fetching the console route through it answers.\<close>

record env =
  now :: int
  parseDuration :: "string \<Rightarrow> error + duration"
  parseInt :: "string \<Rightarrow> int"
  defaultHiveImage :: string
  cliImage :: string
  getInstallJobName :: "string \<Rightarrow> string"
  getResourceName :: "string \<Rightarrow> string \<Rightarrow> string"
  generateInstallerJob ::
    "cluster_deployment \<Rightarrow> string \<Rightarrow> string \<Rightarrow> string \<Rightarrow> string \<Rightarrow> string
       \<Rightarrow> error + (job \<times> config_map)"
  generateImageSetJob :: "cluster_deployment \<Rightarrow> string \<Rightarrow> string \<Rightarrow> string \<Rightarrow> string \<Rightarrow> job"
  marshalJobSpec :: "string \<Rightarrow> error + string"
  md5Hex :: "string \<Rightarrow> string"
  controllerReferenceError :: "owned \<Rightarrow> error option"
  setClusterDeploymentCondition ::
    "condition list \<Rightarrow> string \<Rightarrow> condition_status \<Rightarrow> string \<Rightarrow> string \<Rightarrow> condition list"
  fixupKubeconfig :: "string \<Rightarrow> error + string"
  remoteClusterAPIClientBuilder :: "string \<Rightarrow> error + (error + string)"
  loadKubeconfig :: "string \<Rightarrow> error + (string \<rightharpoonup> string)"

text \<open>The store as one pass reads it. \<open>s_secret_data\<close> is what
  \<^verbatim>\<open>controllerutils.LoadSecretData\<close> answers for a secret and a key of its data,
  \<open>s_install_pods\<close> what listing the install pods of a deployment answers (the restart
  counts of the containers of each pod), \<open>s_namespace\<close> the deletion timestamp of a
  namespace, \<open>s_refuses\<close> the writes the store answers with an error.\<close>

record store =
  s_cluster_deployment :: "key \<Rightarrow> cluster_deployment fetched"
  s_image_set :: "string \<Rightarrow> cluster_image_set fetched"
  s_secret_data :: "key \<Rightarrow> string \<Rightarrow> error + string"
  s_job :: "key \<Rightarrow> job fetched"
  s_config_map :: "key \<Rightarrow> config_map fetched"
  s_dns_zone :: "key \<Rightarrow> dns_zone fetched"
  s_request :: "key \<Rightarrow> deprovision_request fetched"
  s_namespace :: "string \<Rightarrow> timestamp fetched"
  s_secret :: "key \<Rightarrow> secret fetched"
  s_install_pods :: "key \<Rightarrow> error + int list list"
  s_refuses :: "action \<Rightarrow> bool"

subsection \<open>Constants\<close>

definition deleteAfterAnnotation :: string where
  "deleteAfterAnnotation = ''hive.openshift.io/delete-after''"

definition adminSSHKeySecretKey :: string where
  "adminSSHKeySecretKey = ''ssh-publickey''"

definition adminKubeconfigKey :: string where
  "adminKubeconfigKey = ''kubeconfig''"

definition rawAdminKubeconfigKey :: string where
  "rawAdminKubeconfigKey = ''raw-kubeconfig''"

definition clusterDeploymentGenerationAnnotation :: string where
  "clusterDeploymentGenerationAnnotation = ''hive.openshift.io/cluster-deployment-generation''"

definition clusterImageSetNotFoundReason :: string where
  "clusterImageSetNotFoundReason = ''ClusterImageSetNotFound''"

definition clusterImageSetFoundReason :: string where
  "clusterImageSetFoundReason = ''ClusterImageSetFound''"

definition jobHashAnnotation :: string where
  "jobHashAnnotation = ''hive.openshift.io/jobhash''"

definition serviceAccountName :: string where
  "serviceAccountName = ''cluster-installer''"

definition second :: duration where
  "second = 1000000000"

definition defaultRequeueTime :: duration where
  "defaultRequeueTime = 10 * second"

text \<open>Constants of the API packages, declared outside the given sources.\<close>

definition FinalizerDeprovision :: string where
  "FinalizerDeprovision = ''hive.openshift.io/deprovision''"

definition ClusterImageSetNotFoundCondition :: string where
  "ClusterImageSetNotFoundCondition = ''ClusterImageSetNotFound''"

definition ZoneAvailableDNSZoneCondition :: string where
  "ZoneAvailableDNSZoneCondition = ''ZoneAvailable''"

definition DockerConfigJsonKey :: string where
  "DockerConfigJsonKey = ''.dockerconfigjson''"

subsection \<open>Helpers of the model\<close>

text \<open>A write is issued; the store accepts or refuses it.\<close>

definition attempt :: "store \<Rightarrow> action \<Rightarrow> error option" where
  "attempt s a = (if s_refuses s a then Some Store_Error else None)"

definition HasFinalizer :: "cluster_deployment \<Rightarrow> string \<Rightarrow> bool" where
  "HasFinalizer cd f = (f \<in> cd_finalizers cd)"

definition AddFinalizer :: "cluster_deployment \<Rightarrow> string \<Rightarrow> cluster_deployment" where
  "AddFinalizer cd f = cd\<lparr>cd_finalizers := insert f (cd_finalizers cd)\<rparr>"

definition DeleteFinalizer :: "cluster_deployment \<Rightarrow> string \<Rightarrow> cluster_deployment" where
  "DeleteFinalizer cd f = cd\<lparr>cd_finalizers := cd_finalizers cd - {f}\<rparr>"

text \<open>Reading a Go map: a missing key, and any key of a nil map, reads as the zero value.\<close>

definition lookup :: "(string \<rightharpoonup> string) option \<Rightarrow> string \<Rightarrow> string option" where
  "lookup m k = (case m of None \<Rightarrow> None | Some f \<Rightarrow> f k)"

definition lookup_or_empty :: "(string \<rightharpoonup> string) option \<Rightarrow> string \<Rightarrow> string" where
  "lookup_or_empty m k = (case lookup m k of None \<Rightarrow> [] | Some v \<Rightarrow> v)"

text \<open>\<^verbatim>\<open>t.Add(d)\<close>, \<^verbatim>\<open>t.Sub(u)\<close> (which saturates at the largest and smallest
  duration) and \<^verbatim>\<open>t.After(u)\<close> of package \<^verbatim>\<open>time\<close>.\<close>

definition time_add :: "int \<Rightarrow> duration \<Rightarrow> int" where
  "time_add t d = t + sint d"

definition time_sub :: "int \<Rightarrow> int \<Rightarrow> duration" where
  "time_sub t u = word_of_int (max (- (2 ^ 63)) (min (2 ^ 63 - 1) (t - u)))"

definition time_after :: "int \<Rightarrow> int \<Rightarrow> bool" where
  "time_after t u = (u < t)"

subsection \<open>Wildcard ingress migration\<close>

text \<open>\<^verbatim>\<open>wildcardDomain.ReplaceAllString(domain, "")\<close> for the regular expression
  \<^verbatim>\<open>(?i)^\*\.\<close>: the pattern is anchored at the start of the text, so at most the
  first two bytes are removed; the case-insensitive flag changes nothing for \<^verbatim>\<open>*.\<close>.\<close>

definition wildcardDomain_strip :: "string \<Rightarrow> string" where
  "wildcardDomain_strip d = (if take 2 d = ''*.'' then drop 2 d else d)"

text \<open>The loop of \<^verbatim>\<open>migrateWildcardIngress\<close>, with the flag \<^verbatim>\<open>migrated\<close> as
  accumulator.\<close>

primrec migrate_loop :: "cluster_ingress list \<Rightarrow> bool \<Rightarrow> cluster_ingress list \<times> bool" where
  "migrate_loop [] migrated = ([], migrated)"
| "migrate_loop (i # rest) migrated =
     (let newIngress = wildcardDomain_strip (ing_domain i) in
      if newIngress \<noteq> ing_domain i
      then (case migrate_loop rest True of
              (rest', m) \<Rightarrow> (i\<lparr>ing_domain := newIngress\<rparr> # rest', m))
      else (case migrate_loop rest migrated of (rest', m) \<Rightarrow> (i # rest', m)))"

definition migrateWildcardIngress :: "cluster_deployment \<Rightarrow> cluster_deployment \<times> bool" where
  "migrateWildcardIngress cd =
     (case migrate_loop (sp_ingress (cd_spec cd)) False of
        (ingress', migrated) \<Rightarrow>
          (cd\<lparr>cd_spec := (cd_spec cd)\<lparr>sp_ingress := ingress'\<rparr>\<rparr>, migrated))"

subsection \<open>Images\<close>

definition getHiveImage :: "env \<Rightarrow> cluster_deployment \<Rightarrow> cluster_image_set option \<Rightarrow> string" where
  "getHiveImage e cd imageSet =
     (if sp_hive_image (cd_spec cd) \<noteq> [] then sp_hive_image (cd_spec cd)
      else case imageSet of
             None \<Rightarrow> defaultHiveImage e
           | Some iset \<Rightarrow>
               (case is_hive_image iset of Some img \<Rightarrow> img | None \<Rightarrow> defaultHiveImage e))"

definition getReleaseImage :: "cluster_deployment \<Rightarrow> cluster_image_set option \<Rightarrow> string" where
  "getReleaseImage cd imageSet =
     (if sp_release_image (cd_spec cd) \<noteq> [] then sp_release_image (cd_spec cd)
      else case imageSet of
             None \<Rightarrow> []
           | Some iset \<Rightarrow> (case is_release_image iset of Some img \<Rightarrow> img | None \<Rightarrow> []))"

text \<open>\<^verbatim>\<open>setImageSetNotFoundCondition\<close> returns \<^verbatim>\<open>(modified, err)\<close> and changes the
  conditions of \<^verbatim>\<open>cd\<close> in place: the model returns the writes, both values and the new
  \<^verbatim>\<open>cd\<close>. \<^verbatim>\<open>cd.Spec.ImageSet.Name\<close> on a nil reference is a nil dereference.\<close>

definition setImageSetNotFoundCondition ::
  "env \<Rightarrow> store \<Rightarrow> cluster_deployment \<Rightarrow> bool
     \<Rightarrow> action list \<times> bool \<times> error option \<times> cluster_deployment" where
  "setImageSetNotFoundCondition e s cd isNotFound =
     (case sp_image_set (cd_spec cd) of
        None \<Rightarrow> ([], False, Some Panic, cd)
      | Some name \<Rightarrow>
         (let original = cd;
              status = (if isNotFound then Condition_True else Condition_False);
              reason = (if isNotFound then clusterImageSetNotFoundReason
                        else clusterImageSetFoundReason);
              message = (if isNotFound then ''ClusterImageSet '' @ name @ '' is not available''
                         else ''ClusterImageSet '' @ name @ '' is available'');
              cd' = cd\<lparr>cd_status := (cd_status cd)\<lparr>st_conditions :=
                      setClusterDeploymentCondition e (st_conditions (cd_status cd))
                        ClusterImageSetNotFoundCondition status reason message\<rparr>\<rparr>
          in if st_conditions (cd_status original) \<noteq> st_conditions (cd_status cd')
             then ([Status_Update cd'], True, attempt s (Status_Update cd'), cd')
             else ([], False, None, cd')))"

text \<open>\<^verbatim>\<open>getClusterImageSet\<close> returns \<^verbatim>\<open>(imageSet, modified, err)\<close>.\<close>

definition getClusterImageSet ::
  "env \<Rightarrow> store \<Rightarrow> cluster_deployment
     \<Rightarrow> action list \<times> cluster_image_set option \<times> bool \<times> error option \<times> cluster_deployment" where
  "getClusterImageSet e s cd =
     (case sp_image_set (cd_spec cd) of
        None \<Rightarrow> ([], None, False, None, cd)
      | Some name \<Rightarrow>
          if length name = 0 then ([], None, False, None, cd)
          else (case s_image_set s name of
                  Not_Found \<Rightarrow>
                    (case setImageSetNotFoundCondition e s cd False of
                       (ws, modified, err, cd') \<Rightarrow> (ws, None, modified, err, cd'))
                | Fetch_Failed \<Rightarrow> ([], None, False, Some Store_Error, cd)
                | Found imageSet \<Rightarrow> ([], Some imageSet, False, None, cd)))"

subsection \<open>The deletion workflow\<close>

definition dnsZoneName :: "env \<Rightarrow> string \<Rightarrow> string" where
  "dnsZoneName e cdName = getResourceName e cdName ''zone''"

definition addClusterDeploymentFinalizer ::
  "store \<Rightarrow> cluster_deployment \<Rightarrow> action list \<times> error option" where
  "addClusterDeploymentFinalizer s cd =
     (let cd' = AddFinalizer cd FinalizerDeprovision
      in ([Update_CD cd'], attempt s (Update_CD cd')))"

definition removeClusterDeploymentFinalizer ::
  "store \<Rightarrow> cluster_deployment \<Rightarrow> action list \<times> error option" where
  "removeClusterDeploymentFinalizer s cd =
     (let cd' = DeleteFinalizer cd FinalizerDeprovision
      in ([Update_CD cd'], attempt s (Update_CD cd')))"

text \<open>\<^verbatim>\<open>ensureManagedDNSZoneDeleted\<close> returns \<^verbatim>\<open>(*reconcile.Result, error)\<close>; a nil
  result is \<open>None\<close>.\<close>

definition ensureManagedDNSZoneDeleted ::
  "env \<Rightarrow> store \<Rightarrow> cluster_deployment \<Rightarrow> action list \<times> result option \<times> error option" where
  "ensureManagedDNSZoneDeleted e s cd =
     (if \<not> sp_manage_dns (cd_spec cd) then ([], None, None)
      else case s_dns_zone s (cd_namespace cd, dnsZoneName e (cd_name cd)) of
             Fetch_Failed \<Rightarrow> ([], Some Done, Some Store_Error)
           | Not_Found \<Rightarrow> ([], None, None)
           | Found dnsZone \<Rightarrow>
               if dz_deletion_timestamp dnsZone \<noteq> None
               then ([], Some (Requeue_After defaultRequeueTime), None)
               else ([Delete_DNSZone dnsZone Foreground], Some Done,
                     attempt s (Delete_DNSZone dnsZone Foreground)))"

definition generateDeprovisionRequest :: "cluster_deployment \<Rightarrow> deprovision_request" where
  "generateDeprovisionRequest cd =
     \<lparr> dr_name = cd_name cd,
       dr_namespace = cd_namespace cd,
       dr_owner = None,
       dr_infra_id = st_infra_id (cd_status cd),
       dr_cluster_id = st_cluster_id (cd_status cd),
       dr_region = (case sp_aws (cd_spec cd) of Some aws \<Rightarrow> aws_region aws | None \<Rightarrow> []),
       dr_credentials = sp_secrets_aws (cd_spec cd),
       dr_completed = False \<rparr>"

text \<open>\<^verbatim>\<open>syncDeletedClusterDeployment\<close>. The parameter \<^verbatim>\<open>hiveImage\<close> is not used by the
  source. When creating the deprovision request fails, the namespace is fetched and the
  error of that fetch replaces the error of the creation (the source reassigns
  \<^verbatim>\<open>err\<close>).\<close>

definition syncDeletedClusterDeployment ::
  "env \<Rightarrow> store \<Rightarrow> cluster_deployment \<Rightarrow> string \<Rightarrow> action list \<times> outcome" where
  "syncDeletedClusterDeployment e s cd hiveImage =
     (case ensureManagedDNSZoneDeleted e s cd of
        (ws, Some res, err) \<Rightarrow> (ws, (res, err))
      | (ws, None, Some err) \<Rightarrow> (ws, (Done, Some err))
      | (ws, None, None) \<Rightarrow>
         (case s_job s (cd_namespace cd, getInstallJobName e (cd_name cd)) of
            Fetch_Failed \<Rightarrow> (ws, (Done, Some Store_Error))
          | Found installJob \<Rightarrow>
              if job_deletion_timestamp installJob \<noteq> None
              then (ws, (Requeue_After defaultRequeueTime, None))
              else (ws @ [Delete_Job installJob Foreground],
                    (Done, attempt s (Delete_Job installJob Foreground)))
          | Not_Found \<Rightarrow>
              if sp_preserve_on_delete (cd_spec cd) \<and> st_installed (cd_status cd)
              then (if HasFinalizer cd FinalizerDeprovision
                    then (case removeClusterDeploymentFinalizer s cd of
                            (ws', err) \<Rightarrow> (ws @ ws', (Done, err)))
                    else (ws, (Done, None)))
              else if st_infra_id (cd_status cd) = []
              then (case removeClusterDeploymentFinalizer s cd of
                      (ws', err) \<Rightarrow> (ws @ ws', (Done, err)))
              else
               (case controllerReferenceError e Owned_Request of
                  Some err \<Rightarrow> (ws, (Done, Some err))
                | None \<Rightarrow>
                   (let request = (generateDeprovisionRequest cd)\<lparr>dr_owner := Some (cd_name cd)\<rparr>
                    in case s_request s (cd_namespace cd, cd_name cd) of
                         Not_Found \<Rightarrow>
                           if s_refuses s (Create_Request request)
                           then (case s_namespace s (cd_namespace cd) of
                                   Fetch_Failed \<Rightarrow>
                                     (ws @ [Create_Request request], (Done, Some Store_Error))
                                 | Not_Found \<Rightarrow>
                                     (ws @ [Create_Request request], (Done, Some Not_Found_Error))
                                 | Found nsDeletionTimestamp \<Rightarrow>
                                     if nsDeletionTimestamp \<noteq> None
                                     then (case removeClusterDeploymentFinalizer s cd of
                                             (ws', err) \<Rightarrow>
                                               (ws @ [Create_Request request] @ ws', (Done, err)))
                                     else (ws @ [Create_Request request], (Done, None)))
                           else (ws @ [Create_Request request], (Done, None))
                       | Fetch_Failed \<Rightarrow> (ws, (Done, Some Store_Error))
                       | Found existingRequest \<Rightarrow>
                           if dr_completed existingRequest
                           then (case removeClusterDeploymentFinalizer s cd of
                                   (ws', err) \<Rightarrow> (ws @ ws', (Done, err)))
                           else (ws, (Done, None))))))"

subsection \<open>Installer image resolution\<close>

text \<open>Modelled from the spec: a job is "terminal (succeeded or failed)" (section 4.2);
  this is \<^verbatim>\<open>controllerutils.IsFinished\<close>, whose code is outside the given sources.\<close>

definition IsFinished :: "job \<Rightarrow> bool" where
  "IsFinished j = (job_successful j \<or> job_failed j)"

text \<open>\<^verbatim>\<open>resolveInstallerImage\<close>. The first case of the \<^verbatim>\<open>switch\<close> reads the deletion
  timestamp of \<^verbatim>\<open>job\<close>, the job that was just generated, not of \<^verbatim>\<open>existingJob\<close>.
  The pull-policy wrappers \<^verbatim>\<open>imageset.AlwaysPullImage\<close> are part of the generator
  parameter.\<close>

definition resolveInstallerImage ::
  "env \<Rightarrow> store \<Rightarrow> cluster_deployment \<Rightarrow> cluster_image_set option \<Rightarrow> string \<Rightarrow> string
     \<Rightarrow> action list \<times> outcome" where
  "resolveInstallerImage e s cd imageSet releaseImage hiveImage =
     (if length (sp_installer_image (cd_spec cd)) > 0
      then (let cd' = cd\<lparr>cd_status := (cd_status cd)\<lparr>st_installer_image :=
                        Some (sp_installer_image (cd_spec cd))\<rparr>\<rparr>
            in ([Status_Update cd'], (Done, attempt s (Status_Update cd'))))
      else if imageSet \<noteq> None \<and> is_installer_image (the imageSet) \<noteq> None
      then (let cd' = cd\<lparr>cd_status := (cd_status cd)\<lparr>st_installer_image :=
                        is_installer_image (the imageSet)\<rparr>\<rparr>
            in ([Status_Update cd'], (Done, attempt s (Status_Update cd'))))
      else
       (let job0 = generateImageSetJob e cd releaseImage serviceAccountName (cliImage e) hiveImage
        in case controllerReferenceError e Owned_Job of
             Some err \<Rightarrow> ([], (Done, Some err))
           | None \<Rightarrow>
              (let job = job0\<lparr>job_owner := Some (cd_name cd)\<rparr>;
                   jobName = (job_namespace job, job_name job)
               in case s_job s jobName of
                    Found existingJob \<Rightarrow>
                      if job_deletion_timestamp job \<noteq> None
                      then ([], (Requeue_After defaultRequeueTime, None))
                      else if IsFinished existingJob
                      then ([Delete_Job existingJob Foreground],
                            (Done, attempt s (Delete_Job existingJob Foreground)))
                      else ([], (Done, None))
                  | Not_Found \<Rightarrow>
                      if s_refuses s (Setup_ServiceAccount (cd_namespace cd))
                      then ([Setup_ServiceAccount (cd_namespace cd)], (Done, Some Store_Error))
                      else ([Setup_ServiceAccount (cd_namespace cd), Create_Job job],
                            (Done, attempt s (Create_Job job)))
                  | Fetch_Failed \<Rightarrow> ([], (Done, Some Store_Error)))))"

subsection \<open>The dependency gate: the managed DNS zone\<close>

text \<open>\<^verbatim>\<open>controllerutils.FindDNSZoneCondition\<close> (outside the given sources): the first
  condition of the given type.\<close>

definition FindDNSZoneCondition ::
  "(string \<times> condition_status) list \<Rightarrow> string \<Rightarrow> (string \<times> condition_status) option" where
  "FindDNSZoneCondition conditions t = find (\<lambda>c. fst c = t) conditions"

definition createManagedDNSZone ::
  "env \<Rightarrow> store \<Rightarrow> cluster_deployment \<Rightarrow> action list \<times> error option" where
  "createManagedDNSZone e s cd =
     (case (sp_aws (cd_spec cd), sp_secrets_aws (cd_spec cd)) of
        (Some aws, Some credentials) \<Rightarrow>
          (let dnsZone =
                 \<lparr> dz_name = dnsZoneName e (cd_name cd),
                   dz_namespace = cd_namespace cd,
                   dz_deletion_timestamp = None,
                   dz_owner = None,
                   dz_zone = sp_base_domain (cd_spec cd),
                   dz_link_to_parent = True,
                   dz_account_secret = credentials,
                   dz_region = aws_region aws,
                   dz_additional_tags = set (aws_user_tags aws),
                   dz_conditions = [] \<rparr>
           in case controllerReferenceError e Owned_DNSZone of
                Some err \<Rightarrow> ([], Some err)
              | None \<Rightarrow>
                  (let dnsZone' = dnsZone\<lparr>dz_owner := Some (cd_name cd)\<rparr>
                   in ([Create_DNSZone dnsZone'], attempt s (Create_DNSZone dnsZone'))))
      | _ \<Rightarrow> ([], Some Panic))"

text \<open>\<^verbatim>\<open>ensureManagedDNSZone\<close> returns \<^verbatim>\<open>(bool, error)\<close>.\<close>

definition ensureManagedDNSZone ::
  "env \<Rightarrow> store \<Rightarrow> cluster_deployment \<Rightarrow> action list \<times> bool \<times> error option" where
  "ensureManagedDNSZone e s cd =
     (if sp_aws (cd_spec cd) = None \<or> sp_secrets_aws (cd_spec cd) = None
      then ([], False, Some Only_AWS_Managed_DNS)
      else case s_dns_zone s (cd_namespace cd, dnsZoneName e (cd_name cd)) of
             Found dnsZone \<Rightarrow>
               (case FindDNSZoneCondition (dz_conditions dnsZone) ZoneAvailableDNSZoneCondition of
                  None \<Rightarrow> ([], False, None)
                | Some availableCondition \<Rightarrow> ([], snd availableCondition = Condition_True, None))
           | Not_Found \<Rightarrow>
               (case createManagedDNSZone e s cd of (ws, err) \<Rightarrow> (ws, False, err))
           | Fetch_Failed \<Rightarrow> ([], False, Some Store_Error))"

subsection \<open>The install job and its idempotency guard\<close>

text \<open>\<^verbatim>\<open>calculateJobSpecHash\<close>: the hexadecimal MD5 digest of the marshalled job
  specification (\<^verbatim>\<open>hash.Hash.Write\<close> never returns an error).\<close>

definition calculateJobSpecHash :: "env \<Rightarrow> job \<Rightarrow> error + string" where
  "calculateJobSpecHash e j =
     (case marshalJobSpec e (job_spec j) of
        Inl err \<Rightarrow> Inl err
      | Inr jobSpecBytes \<Rightarrow> Inr (md5Hex e jobSpecBytes))"

text \<open>\<^verbatim>\<open>calcInstallPodRestarts\<close>: the sum of the restart counts of all containers of all
  install pods.\<close>

definition calcInstallPodRestarts :: "store \<Rightarrow> cluster_deployment \<Rightarrow> error + int" where
  "calcInstallPodRestarts s cd =
     (case s_install_pods s (cd_namespace cd, cd_name cd) of
        Inl err \<Rightarrow> Inl err
      | Inr pods \<Rightarrow> Inr (sum_list (map sum_list pods)))"

text \<open>\<^verbatim>\<open>updateOutdatedConfigurations\<close> returns \<^verbatim>\<open>(didGenerationChange, err)\<close>.
  \<^verbatim>\<open>strconv.ParseInt\<close> is the parameter \<open>parseInt\<close>: its error is dropped by the
  source, so only the number it returns matters.\<close>

definition updateOutdatedConfigurations ::
  "env \<Rightarrow> store \<Rightarrow> int \<Rightarrow> job \<Rightarrow> config_map \<Rightarrow> action list \<times> bool \<times> error option" where
  "updateOutdatedConfigurations e s cdGeneration existingJob cfgMap =
     (let jobOutdated =
            (case lookup (job_annotations existingJob) clusterDeploymentGenerationAnnotation of
               None \<Rightarrow> False
             | Some jobGeneration \<Rightarrow> parseInt e jobGeneration < cdGeneration);
          mapOutdated =
            (case lookup (cm_annotations cfgMap) clusterDeploymentGenerationAnnotation of
               None \<Rightarrow> False
             | Some cfgMapGeneration \<Rightarrow> parseInt e cfgMapGeneration < cdGeneration);
          ws1 = (if jobOutdated then [Delete_Job existingJob Foreground] else [])
      in if jobOutdated \<and> s_refuses s (Delete_Job existingJob Foreground)
         then (ws1, True, Some Store_Error)
         else if mapOutdated
         then (ws1 @ [Update_ConfigMap cfgMap], True, attempt s (Update_ConfigMap cfgMap))
         else (ws1, jobOutdated, None))"

text \<open>\<^verbatim>\<open>deleteJobOnHashChange\<close> returns \<^verbatim>\<open>(newJobNeeded, err)\<close>.\<close>

definition newJobNeeded :: "job \<Rightarrow> job \<Rightarrow> bool" where
  "newJobNeeded existingJob generatedJob =
     (lookup (job_annotations existingJob) jobHashAnnotation = None
      \<or> lookup_or_empty (job_annotations existingJob) jobHashAnnotation
          \<noteq> lookup_or_empty (job_annotations generatedJob) jobHashAnnotation)"

definition deleteJobOnHashChange ::
  "store \<Rightarrow> job \<Rightarrow> job \<Rightarrow> action list \<times> bool \<times> error option" where
  "deleteJobOnHashChange s existingJob generatedJob =
     (if newJobNeeded existingJob generatedJob
      then ([Delete_Job existingJob Foreground], True,
            attempt s (Delete_Job existingJob Foreground))
      else ([], False, None))"

text \<open>Lines 414 to 522 of \<^verbatim>\<open>reconcile\<close>, the branch taken while the cluster is not
  installed. \<open>Inl\<close> is a \<^verbatim>\<open>return\<close> of the pass; \<open>Inr\<close> carries on with \<^verbatim>\<open>cd\<close>,
  whose restart count may have been set.\<close>

definition reconcileInstallJob ::
  "env \<Rightarrow> store \<Rightarrow> cluster_deployment \<Rightarrow> string \<Rightarrow> string \<Rightarrow> string \<Rightarrow> job option
     \<Rightarrow> action list \<times> (outcome + cluster_deployment)" where
  "reconcileInstallJob e s cd hiveImage releaseImage sshKey existingJob =
     (case s_secret_data s (cd_namespace cd, sp_pull_secret (cd_spec cd)) DockerConfigJsonKey of
        Inl err \<Rightarrow> ([], Inl (Done, Some err))
      | Inr pullSecret \<Rightarrow>
     (case generateInstallerJob e cd hiveImage releaseImage serviceAccountName sshKey pullSecret of
        Inl err \<Rightarrow> ([], Inl (Done, Some err))
      | Inr (job0, cfgMap0) \<Rightarrow>
     (case calculateJobSpecHash e job0 of
        Inl err \<Rightarrow> ([], Inl (Done, Some err))
      | Inr jobHash \<Rightarrow>
     (case controllerReferenceError e Owned_Job of
        Some err \<Rightarrow> ([], Inl (Done, Some err))
      | None \<Rightarrow>
     (case controllerReferenceError e Owned_ConfigMap of
        Some err \<Rightarrow> ([], Inl (Done, Some err))
      | None \<Rightarrow>
     (let annotations = (case job_annotations job0 of None \<Rightarrow> Map.empty | Some m \<Rightarrow> m);
          job = job0\<lparr>job_annotations := Some (annotations(jobHashAnnotation \<mapsto> jobHash)),
                     job_owner := Some (cd_name cd)\<rparr>;
          cfgMap = cfgMap0\<lparr>cm_owner := Some (cd_name cd)\<rparr>;
          existingCfgMap = s_config_map s (cm_namespace cfgMap, cm_name cfgMap);
          ws1 = (if existingCfgMap = Not_Found then [Create_ConfigMap cfgMap] else [])
      in if existingCfgMap = Not_Found \<and> s_refuses s (Create_ConfigMap cfgMap)
         then (ws1, Inl (Done, Some Store_Error))
         else if existingCfgMap = Fetch_Failed
         then (ws1, Inl (Done, Some Store_Error))
         else
          (case existingJob of
             None \<Rightarrow>
               if s_refuses s (Setup_ServiceAccount (cd_namespace cd))
               then (ws1 @ [Setup_ServiceAccount (cd_namespace cd)],
                     Inl (Done, Some Store_Error))
               else if s_refuses s (Create_Job job)
               then (ws1 @ [Setup_ServiceAccount (cd_namespace cd), Create_Job job],
                     Inl (Done, Some Store_Error))
               else (ws1 @ [Setup_ServiceAccount (cd_namespace cd), Create_Job job], Inr cd)
           | Some existing \<Rightarrow>
              (let cd' = (case calcInstallPodRestarts s cd of
                            Inl err \<Rightarrow> cd
                          | Inr containerRestarts \<Rightarrow>
                              cd\<lparr>cd_status := (cd_status cd)\<lparr>st_install_restarts :=
                                    containerRestarts\<rparr>\<rparr>)
               in case (if job_annotations existing \<noteq> None \<and> cm_annotations cfgMap \<noteq> None
                        then updateOutdatedConfigurations e s (cd_generation cd') existing
                               cfgMap
                        else ([], False, None)) of
                    (ws2, didGenerationChange, err2) \<Rightarrow>
                      if didGenerationChange \<or> err2 \<noteq> None
                      then (ws1 @ ws2, Inl (Done, err2))
                      else (case deleteJobOnHashChange s existing job of
                              (ws3, jobDeleted, err3) \<Rightarrow>
                                if jobDeleted \<or> err3 \<noteq> None
                                then (ws1 @ ws2 @ ws3, Inl (Done, err3))
                                else (ws1 @ ws2 @ ws3, Inr cd'))))))))))"

subsection \<open>Status convergence\<close>

text \<open>\<^verbatim>\<open>fixupAdminKubeconfigSecret\<close> changes the secret in place and writes it when its
  data differ from the data fetched: the model returns the writes, the error and the
  secret. Storing into a nil \<^verbatim>\<open>Data\<close> map panics.\<close>

definition fixupAdminKubeconfigSecret ::
  "env \<Rightarrow> store \<Rightarrow> key \<Rightarrow> secret \<Rightarrow> action list \<times> error option \<times> secret" where
  "fixupAdminKubeconfigSecret e s k sec =
     (case sec_data sec of
        None \<Rightarrow> ([], Some Panic, sec)
      | Some original \<Rightarrow>
         (let kubeconfig = (case original adminKubeconfigKey of None \<Rightarrow> [] | Some v \<Rightarrow> v);
              rawData = (case original rawAdminKubeconfigKey of
                           Some raw \<Rightarrow> raw
                         | None \<Rightarrow> kubeconfig);
              data1 = (case original rawAdminKubeconfigKey of
                         Some raw \<Rightarrow> original
                       | None \<Rightarrow> original(rawAdminKubeconfigKey \<mapsto> kubeconfig))
          in case fixupKubeconfig e rawData of
               Inl err \<Rightarrow> ([], Some err, sec)
             | Inr fixed \<Rightarrow>
                 (let sec' = sec\<lparr>sec_data := Some (data1(adminKubeconfigKey \<mapsto> fixed))\<rparr>
                  in if data1(adminKubeconfigKey \<mapsto> fixed) = original
                     then ([], None, sec')
                     else ([Update_Secret k sec'], attempt s (Update_Secret k sec'), sec'))))"

text \<open>\<^verbatim>\<open>setAdminKubeconfigStatus\<close>. The remote client is what fetching the console
  route through it answers: an error or the host of the route.\<close>

definition setAdminKubeconfigStatus ::
  "env \<Rightarrow> cluster_deployment \<Rightarrow> secret \<Rightarrow> error + cluster_deployment" where
  "setAdminKubeconfigStatus e cd adminKubeconfigSecret =
     (if st_web_console_url (cd_status cd) = [] \<or> st_api_url (cd_status cd) = []
      then (let kubeconfig = lookup_or_empty (sec_data adminKubeconfigSecret) adminKubeconfigKey
            in case remoteClusterAPIClientBuilder e kubeconfig of
                 Inl err \<Rightarrow> Inl err
               | Inr remoteClusterAPIClient \<Rightarrow>
                  (case loadKubeconfig e kubeconfig of
                     Inl err \<Rightarrow> Inl err
                   | Inr clusters \<Rightarrow>
                      (case clusters (sp_cluster_name (cd_spec cd)) of
                         None \<Rightarrow> Inl Kubeconfig_Cluster_Missing
                       | Some server \<Rightarrow>
                          (case remoteClusterAPIClient of
                             Inl err \<Rightarrow> Inl err
                           | Inr host \<Rightarrow>
                               Inr (cd\<lparr>cd_status := (cd_status cd)
                                      \<lparr>st_api_url := server,
                                       st_web_console_url := ''https://'' @ host\<rparr>\<rparr>)))))
      else Inr cd)"

text \<open>\<^verbatim>\<open>updateClusterDeploymentStatus\<close> changes \<^verbatim>\<open>cd\<close> in place; it is modelled in
  the four parts it is written in. Lines 745 to 748: the installed flag follows the job,
  when there is one.\<close>

definition mirrorInstalled :: "cluster_deployment \<Rightarrow> job option \<Rightarrow> cluster_deployment" where
  "mirrorInstalled cd existingJob =
     (case existingJob of
        None \<Rightarrow> cd
      | Some j \<Rightarrow>
          if job_name j \<noteq> [] \<and> job_namespace j \<noteq> []
          then cd\<lparr>cd_status := (cd_status cd)\<lparr>st_installed := job_successful j\<rparr>\<rparr>
          else cd)"

text \<open>Lines 750 to 754: the name of the admin kubeconfig secret is healed.\<close>

definition healAdminKubeconfigSecret :: "env \<Rightarrow> cluster_deployment \<Rightarrow> cluster_deployment" where
  "healAdminKubeconfigSecret e cd =
     (if st_installed (cd_status cd) \<and> st_admin_kubeconfig_secret (cd_status cd) = []
      then cd\<lparr>cd_status := (cd_status cd)\<lparr>st_admin_kubeconfig_secret :=
                 getResourceName e (cd_name cd) ''admin-kubeconfig''\<rparr>\<rparr>
      else cd)"

text \<open>Lines 756 to 775: the secret is fetched, fixed up, and read for the status. The
  result is the writes, the error that ends the function (if any), and \<^verbatim>\<open>cd\<close>.\<close>

definition syncAdminKubeconfig ::
  "env \<Rightarrow> store \<Rightarrow> cluster_deployment \<Rightarrow> action list \<times> error option \<times> cluster_deployment" where
  "syncAdminKubeconfig e s cd =
     (if st_admin_kubeconfig_secret (cd_status cd) \<noteq> []
      then (case s_secret s (cd_namespace cd, st_admin_kubeconfig_secret (cd_status cd)) of
              Not_Found \<Rightarrow> ([], None, cd)
            | Fetch_Failed \<Rightarrow> ([], Some Store_Error, cd)
            | Found adminKubeconfigSecret \<Rightarrow>
               (case fixupAdminKubeconfigSecret e s
                       (cd_namespace cd, st_admin_kubeconfig_secret (cd_status cd))
                       adminKubeconfigSecret of
                  (ws, Some err, sec') \<Rightarrow> (ws, Some err, cd)
                | (ws, None, sec') \<Rightarrow>
                   (case setAdminKubeconfigStatus e cd sec' of
                      Inl err \<Rightarrow> (ws, Some err, cd)
                    | Inr cd' \<Rightarrow> (ws, None, cd'))))
      else ([], None, cd))"

text \<open>The whole function: lines 777 to 790 write the status when it differs from the
  status of \<^verbatim>\<open>origCD\<close>. The result is the writes, the error and the \<^verbatim>\<open>cd\<close> the
  function ends with.\<close>

definition updateClusterDeploymentStatus ::
  "env \<Rightarrow> store \<Rightarrow> cluster_deployment \<Rightarrow> cluster_deployment \<Rightarrow> job option
     \<Rightarrow> action list \<times> error option \<times> cluster_deployment" where
  "updateClusterDeploymentStatus e s cd origCD existingJob =
     (case syncAdminKubeconfig e s
             (healAdminKubeconfigSecret e (mirrorInstalled cd existingJob)) of
        (ws, Some err, cd') \<Rightarrow> (ws, Some err, cd')
      | (ws, None, cd') \<Rightarrow>
          if cd_status cd' \<noteq> cd_status origCD
          then (ws @ [Status_Update cd'], attempt s (Status_Update cd'), cd')
          else (ws, None, cd'))"

subsection \<open>The reconciliation pass\<close>

text \<open>Lines 321 to 348 of \<^verbatim>\<open>reconcile\<close>: the delete-after annotation. \<open>Inl\<close> is a
  \<^verbatim>\<open>return\<close> of the pass, \<open>Inr\<close> carries on with \<^verbatim>\<open>requeueAfter\<close>. The clock is read
  once in a pass.\<close>

definition checkDeleteAfter ::
  "env \<Rightarrow> store \<Rightarrow> cluster_deployment \<Rightarrow> action list \<times> (outcome + duration)" where
  "checkDeleteAfter e s cd =
     (case cd_annotations cd deleteAfterAnnotation of
        None \<Rightarrow> ([], Inr 0)
      | Some deleteAfter \<Rightarrow>
         (case parseDuration e deleteAfter of
            Inl err \<Rightarrow> ([], Inl (Done, Some Duration_Parse_Error))
          | Inr dur \<Rightarrow>
             (case cd_creation_timestamp cd of
                None \<Rightarrow> ([], Inr 0)
              | Some created \<Rightarrow>
                 (let expiry = time_add created dur
                  in if time_after (now e) expiry
                     then ([Delete_CD cd], Inl (Done, attempt s (Delete_CD cd)))
                     else ([], Inr (time_sub expiry (now e) + 60 * second))))))"

text \<open>Lines 412 to 529 of \<^verbatim>\<open>reconcile\<close>, with \<^verbatim>\<open>existingJob\<close> fetched (\<open>None\<close> is
  nil): the install job is processed unless the cluster is installed, then the status
  converges. \<open>Inr\<close> is reaching line 531 with \<^verbatim>\<open>requeueAfter\<close>.\<close>

definition installAndConverge ::
  "env \<Rightarrow> store \<Rightarrow> cluster_deployment \<Rightarrow> cluster_deployment \<Rightarrow> string \<Rightarrow> string \<Rightarrow> string
     \<Rightarrow> duration \<Rightarrow> job option \<Rightarrow> action list \<times> (outcome + duration)" where
  "installAndConverge e s cd origCD hiveImage releaseImage sshKey requeueAfter existingJob =
     (case (if st_installed (cd_status cd) then ([], Inr cd)
            else reconcileInstallJob e s cd hiveImage releaseImage sshKey existingJob) of
        (ws2, Inl out) \<Rightarrow> (ws2, Inl out)
      | (ws2, Inr cd') \<Rightarrow>
         (case updateClusterDeploymentStatus e s cd' origCD existingJob of
            (ws3, Some err, cd'') \<Rightarrow> (ws2 @ ws3, Inl (Done, Some err))
          | (ws3, None, cd'') \<Rightarrow> (ws2 @ ws3, Inr requeueAfter)))"

text \<open>Lines 376 to 410 of \<^verbatim>\<open>reconcile\<close>, and on: the dependency gate, then the install
  job is fetched; a job that is being deleted ends the pass with a requeue.\<close>

definition reconcileProvision ::
  "env \<Rightarrow> store \<Rightarrow> cluster_deployment \<Rightarrow> cluster_deployment \<Rightarrow> string \<Rightarrow> string \<Rightarrow> string
     \<Rightarrow> duration \<Rightarrow> action list \<times> (outcome + duration)" where
  "reconcileProvision e s cd origCD hiveImage releaseImage sshKey requeueAfter =
     (case (if sp_manage_dns (cd_spec cd) then ensureManagedDNSZone e s cd
            else ([], True, None)) of
        (ws1, managedDNSZoneAvailable, Some err) \<Rightarrow> (ws1, Inl (Done, Some err))
      | (ws1, False, None) \<Rightarrow> (ws1, Inl (Done, None))
      | (ws1, True, None) \<Rightarrow>
          (case s_job s (cd_namespace cd, getInstallJobName e (cd_name cd)) of
             Fetch_Failed \<Rightarrow> (ws1, Inl (Done, Some Store_Error))
           | Found existingJob \<Rightarrow>
               if job_deletion_timestamp existingJob \<noteq> None
               then (ws1, Inl (Requeue_After defaultRequeueTime, None))
               else (case installAndConverge e s cd origCD hiveImage releaseImage sshKey
                            requeueAfter (Some existingJob) of
                       (ws, r) \<Rightarrow> (ws1 @ ws, r))
           | Not_Found \<Rightarrow>
               (case installAndConverge e s cd origCD hiveImage releaseImage sshKey
                       requeueAfter None of
                  (ws, r) \<Rightarrow> (ws1 @ ws, r))))"

text \<open>\<^verbatim>\<open>reconcile\<close> up to line 551. \<open>Inl\<close> is a \<^verbatim>\<open>return\<close> taken before the end of the
  function; \<open>Inr\<close> is reaching line 553 with \<^verbatim>\<open>requeueAfter\<close>.\<close>

definition reconcile_run ::
  "env \<Rightarrow> store \<Rightarrow> cluster_deployment \<Rightarrow> action list \<times> (outcome + duration)" where
  "reconcile_run e s origCD =
     (case migrateWildcardIngress origCD of
        (migratedCD, True) \<Rightarrow>
          ([Update_CD migratedCD], Inl (Done, attempt s (Update_CD migratedCD)))
      | (cd0, False) \<Rightarrow>
         (case getClusterImageSet e s cd0 of
            (ws1, imageSet, modified, err, cd) \<Rightarrow>
              if modified \<or> err \<noteq> None then (ws1, Inl (Done, err))
              else
               (let hiveImage = getHiveImage e cd imageSet;
                    releaseImage = getReleaseImage cd imageSet
                in if cd_deletion_timestamp cd \<noteq> None
                   then (if \<not> HasFinalizer cd FinalizerDeprovision
                         then (ws1, Inl (Done, None))
                         else (case syncDeletedClusterDeployment e s cd hiveImage of
                                 (ws, out) \<Rightarrow> (ws1 @ ws, Inl out)))
                   else
                    (case checkDeleteAfter e s cd of
                       (ws2, Inl out) \<Rightarrow> (ws1 @ ws2, Inl out)
                     | (ws2, Inr requeueAfter) \<Rightarrow>
                        if \<not> HasFinalizer cd FinalizerDeprovision
                        then (case addClusterDeploymentFinalizer s cd of
                                (ws, err) \<Rightarrow> (ws1 @ ws2 @ ws, Inl (Done, err)))
                        else
                         (case sp_ssh_key (cd_spec cd) of
                            None \<Rightarrow> (ws1 @ ws2, Inl (Done, Some No_SSH_Key))
                          | Some sshKeyName \<Rightarrow>
                             (case s_secret_data s (cd_namespace cd, sshKeyName)
                                     adminSSHKeySecretKey of
                                Inl err \<Rightarrow> (ws1 @ ws2, Inl (Done, Some err))
                              | Inr sshKey \<Rightarrow>
                                 if st_installer_image (cd_status cd) = None
                                 then (case resolveInstallerImage e s cd imageSet releaseImage
                                              hiveImage of
                                         (ws, out) \<Rightarrow> (ws1 @ ws2 @ ws, Inl out))
                                 else (case reconcileProvision e s cd origCD hiveImage
                                              releaseImage sshKey requeueAfter of
                                         (ws, r) \<Rightarrow> (ws1 @ ws2 @ ws, r))))))))"

text \<open>\<^verbatim>\<open>reconcile\<close>: lines 553 to 558 close the pass.\<close>

definition reconcile :: "env \<Rightarrow> store \<Rightarrow> cluster_deployment \<Rightarrow> action list \<times> outcome" where
  "reconcile e s cd =
     (case reconcile_run e s cd of
        (ws, Inl out) \<Rightarrow> (ws, out)
      | (ws, Inr requeueAfter) \<Rightarrow>
          if requeueAfter \<noteq> 0 then (ws, (Requeue_After requeueAfter, None))
          else (ws, (Done, None)))"

text \<open>\<^verbatim>\<open>Reconcile\<close>: fetch the object of the request, then \<^verbatim>\<open>reconcile\<close>.\<close>

definition Reconcile :: "env \<Rightarrow> store \<Rightarrow> key \<Rightarrow> action list \<times> outcome" where
  "Reconcile e s request =
     (case s_cluster_deployment s request of
        Not_Found \<Rightarrow> ([], (Done, None))
      | Fetch_Failed \<Rightarrow> ([], (Done, Some Store_Error))
      | Found cd \<Rightarrow> reconcile e s cd)"

section \<open>Notions used in the statements\<close>

subsection \<open>Wildcard entries\<close>

definition is_wildcard :: "string \<Rightarrow> bool" where
  "is_wildcard d = (take 2 d = ''*.'')"

definition migrate_entry :: "cluster_ingress \<Rightarrow> cluster_ingress" where
  "migrate_entry i =
     (if is_wildcard (ing_domain i) then i\<lparr>ing_domain := drop 2 (ing_domain i)\<rparr> else i)"

subsection \<open>The install job a pass observes\<close>

text \<open>\<^verbatim>\<open>existingJob\<close> of \<^verbatim>\<open>reconcile\<close> after the fetch of lines 393 to 410: the job
  found, or nil.\<close>

definition existing_job :: "env \<Rightarrow> store \<Rightarrow> cluster_deployment \<Rightarrow> job option" where
  "existing_job e s cd =
     (case s_job s (cd_namespace cd, getInstallJobName e (cd_name cd)) of
        Found j \<Rightarrow> Some j
      | Not_Found \<Rightarrow> None
      | Fetch_Failed \<Rightarrow> None)"

subsection \<open>Passes that reach the install job\<close>

text \<open>The steps of \<^verbatim>\<open>reconcile\<close> before line 412 let the pass through: no ingress entry
  is a wildcard, the image-set lookup neither fails nor changes a condition, the
  deployment is live and not expired, has the finalizer, an SSH key that loads and a
  resolved installer image, the dependency gate is open, and the install job is fetched
  without error and is not being deleted.\<close>

definition reaches_install_job ::
  "env \<Rightarrow> store \<Rightarrow> cluster_deployment \<Rightarrow> cluster_image_set option \<Rightarrow> string \<Rightarrow> duration
     \<Rightarrow> bool" where
  "reaches_install_job e s cd imageSet sshKey requeueAfter =
     (list_all (\<lambda>i. \<not> is_wildcard (ing_domain i)) (sp_ingress (cd_spec cd))
      \<and> getClusterImageSet e s cd = ([], imageSet, False, None, cd)
      \<and> cd_deletion_timestamp cd = None
      \<and> checkDeleteAfter e s cd = ([], Inr requeueAfter)
      \<and> HasFinalizer cd FinalizerDeprovision
      \<and> (\<exists>sshKeyName. sp_ssh_key (cd_spec cd) = Some sshKeyName
            \<and> s_secret_data s (cd_namespace cd, sshKeyName) adminSSHKeySecretKey = Inr sshKey)
      \<and> st_installer_image (cd_status cd) \<noteq> None
      \<and> (if sp_manage_dns (cd_spec cd) then ensureManagedDNSZone e s cd = ([], True, None)
          else True)
      \<and> s_job s (cd_namespace cd, getInstallJobName e (cd_name cd)) \<noteq> Fetch_Failed
      \<and> (case existing_job e s cd of None \<Rightarrow> True
          | Some j \<Rightarrow> job_deletion_timestamp j = None))"

text \<open>The collaborators of lines 422 to 458 succeed: the pull secret loads, the generator
  answers \<open>job0\<close> and \<open>cfgMap0\<close>, the job specification marshals and has the digest
  \<open>jobHash\<close>, and both owner references can be set.\<close>

definition install_job_generated ::
  "env \<Rightarrow> store \<Rightarrow> cluster_deployment \<Rightarrow> cluster_image_set option \<Rightarrow> string \<Rightarrow> job
     \<Rightarrow> config_map \<Rightarrow> string \<Rightarrow> bool" where
  "install_job_generated e s cd imageSet sshKey job0 cfgMap0 jobHash =
     (\<exists>pullSecret jobSpecBytes.
        s_secret_data s (cd_namespace cd, sp_pull_secret (cd_spec cd)) DockerConfigJsonKey
          = Inr pullSecret
        \<and> generateInstallerJob e cd (getHiveImage e cd imageSet) (getReleaseImage cd imageSet)
            serviceAccountName sshKey pullSecret = Inr (job0, cfgMap0)
        \<and> marshalJobSpec e (job_spec job0) = Inr jobSpecBytes
        \<and> jobHash = md5Hex e jobSpecBytes
        \<and> controllerReferenceError e Owned_Job = None
        \<and> controllerReferenceError e Owned_ConfigMap = None)"

text \<open>The job and the config map the controller makes of them (lines 446 to 458).\<close>

definition annotated_job :: "cluster_deployment \<Rightarrow> job \<Rightarrow> string \<Rightarrow> job" where
  "annotated_job cd job0 jobHash =
     job0\<lparr>job_annotations :=
            Some ((case job_annotations job0 of None \<Rightarrow> Map.empty | Some m \<Rightarrow> m)
                    (jobHashAnnotation \<mapsto> jobHash)),
          job_owner := Some (cd_name cd)\<rparr>"

definition owned_config_map :: "cluster_deployment \<Rightarrow> config_map \<Rightarrow> config_map" where
  "owned_config_map cd cfgMap0 = cfgMap0\<lparr>cm_owner := Some (cd_name cd)\<rparr>"

subsection \<open>Kinds of writes\<close>

datatype action_kind =
    K_Update_CD | K_Status_Update | K_Delete_CD | K_Create_Job | K_Delete_Job
  | K_Create_ConfigMap | K_Update_ConfigMap | K_Create_DNSZone | K_Delete_DNSZone
  | K_Create_Request | K_Update_Secret | K_Setup_ServiceAccount

fun kind_of :: "action \<Rightarrow> action_kind" where
  "kind_of (Update_CD cd) = K_Update_CD"
| "kind_of (Status_Update cd) = K_Status_Update"
| "kind_of (Delete_CD cd) = K_Delete_CD"
| "kind_of (Create_Job j) = K_Create_Job"
| "kind_of (Delete_Job j p) = K_Delete_Job"
| "kind_of (Create_ConfigMap c) = K_Create_ConfigMap"
| "kind_of (Update_ConfigMap c) = K_Update_ConfigMap"
| "kind_of (Create_DNSZone z) = K_Create_DNSZone"
| "kind_of (Delete_DNSZone z p) = K_Delete_DNSZone"
| "kind_of (Create_Request r) = K_Create_Request"
| "kind_of (Update_Secret k sec) = K_Update_Secret"
| "kind_of (Setup_ServiceAccount ns) = K_Setup_ServiceAccount"

definition kinds :: "action list \<Rightarrow> action_kind set" where
  "kinds ws = kind_of ` set ws"

subsection \<open>The store between two passes\<close>

text \<open>Modelled from the spec: the store is "a generic typed object store with
  get/create/update/delete/list" (sections 1 and 6), a collaborator outside the given
  sources. A write the store refuses changes nothing; an accepted create or update is what
  a later \<^verbatim>\<open>Get\<close> of that key finds; a status update replaces the status of the stored
  object; after an accepted delete a later \<^verbatim>\<open>Get\<close> answers not found, that is, the
  deletion has completed by the next pass (as in the fake client of the tests).\<close>

definition apply_action :: "store \<Rightarrow> action \<Rightarrow> store" where
  "apply_action s a =
     (if s_refuses s a then s
      else case a of
        Update_CD cd \<Rightarrow>
          s\<lparr>s_cluster_deployment :=
              (s_cluster_deployment s)((cd_namespace cd, cd_name cd) := Found cd)\<rparr>
      | Status_Update cd \<Rightarrow>
          s\<lparr>s_cluster_deployment :=
              (s_cluster_deployment s)((cd_namespace cd, cd_name cd) :=
                 (case s_cluster_deployment s (cd_namespace cd, cd_name cd) of
                    Found stored \<Rightarrow> Found (stored\<lparr>cd_status := cd_status cd\<rparr>)
                  | Not_Found \<Rightarrow> Not_Found
                  | Fetch_Failed \<Rightarrow> Fetch_Failed))\<rparr>
      | Delete_CD cd \<Rightarrow>
          s\<lparr>s_cluster_deployment :=
              (s_cluster_deployment s)((cd_namespace cd, cd_name cd) := Not_Found)\<rparr>
      | Create_Job j \<Rightarrow> s\<lparr>s_job := (s_job s)((job_namespace j, job_name j) := Found j)\<rparr>
      | Delete_Job j p \<Rightarrow> s\<lparr>s_job := (s_job s)((job_namespace j, job_name j) := Not_Found)\<rparr>
      | Create_ConfigMap c \<Rightarrow>
          s\<lparr>s_config_map := (s_config_map s)((cm_namespace c, cm_name c) := Found c)\<rparr>
      | Update_ConfigMap c \<Rightarrow>
          s\<lparr>s_config_map := (s_config_map s)((cm_namespace c, cm_name c) := Found c)\<rparr>
      | Create_DNSZone z \<Rightarrow>
          s\<lparr>s_dns_zone := (s_dns_zone s)((dz_namespace z, dz_name z) := Found z)\<rparr>
      | Delete_DNSZone z p \<Rightarrow>
          s\<lparr>s_dns_zone := (s_dns_zone s)((dz_namespace z, dz_name z) := Not_Found)\<rparr>
      | Create_Request r \<Rightarrow>
          s\<lparr>s_request := (s_request s)((dr_namespace r, dr_name r) := Found r)\<rparr>
      | Update_Secret k sec \<Rightarrow> s\<lparr>s_secret := (s_secret s)(k := Found sec)\<rparr>
      | Setup_ServiceAccount ns \<Rightarrow> s)"

definition store_after :: "store \<Rightarrow> action list \<Rightarrow> store" where
  "store_after s ws = foldl apply_action s ws"

subsection \<open>Fixtures\<close>

text \<open>Concrete inputs, after the fixtures of
  \<^verbatim>\<open>clusterdeployment_controller_test.go\<close>: an environment whose collaborators
  succeed, a store that holds the two secrets of the tests and nothing else, and the
  deployments and jobs the tests start from.\<close>

definition test_job :: "string \<Rightarrow> string \<Rightarrow> job" where
  "test_job ns name =
     \<lparr> job_name = name, job_namespace = ns, job_annotations = Some Map.empty,
       job_deletion_timestamp = None, job_owner = None, job_spec = ''spec'',
       job_successful = False, job_failed = False, job_succeeded = 0 \<rparr>"

definition test_env :: env where
  "test_env =
     \<lparr> now = 3600000000000,
       parseDuration = (\<lambda>a. if a = ''5m'' then Inr (300 * second) else Inl Duration_Parse_Error),
       parseInt = (\<lambda>a. 0),
       defaultHiveImage = ''hive:latest'',
       cliImage = ''cli:latest'',
       getInstallJobName = (\<lambda>name. name @ ''-install''),
       getResourceName = (\<lambda>name suffix. name @ ''-'' @ suffix),
       generateInstallerJob =
         (\<lambda>cd hiveImage releaseImage sa sshKey pullSecret.
            Inr (test_job (cd_namespace cd) (cd_name cd @ ''-install''),
                 \<lparr> cm_name = cd_name cd @ ''-install-config'', cm_namespace = cd_namespace cd,
                   cm_annotations = Some Map.empty, cm_owner = None \<rparr>)),
       generateImageSetJob =
         (\<lambda>cd releaseImage sa cli hiveImage.
            test_job (cd_namespace cd) (cd_name cd @ ''-imageset'')),
       marshalJobSpec = (\<lambda>spec. Inr spec),
       md5Hex = (\<lambda>bytes. ''md5-'' @ bytes),
       controllerReferenceError = (\<lambda>kind. None),
       setClusterDeploymentCondition = (\<lambda>conditions t status reason message. conditions),
       fixupKubeconfig = (\<lambda>raw. Inr (''fixed-'' @ raw)),
       remoteClusterAPIClientBuilder = (\<lambda>kubeconfig. Inr (Inr ''console.example.com'')),
       loadKubeconfig = (\<lambda>kubeconfig. Inr [''bar'' \<mapsto> ''https://api.example.com:6443'']) \<rparr>"

definition test_store :: store where
  "test_store =
     \<lparr> s_cluster_deployment = (\<lambda>k. Not_Found),
       s_image_set = (\<lambda>name. Not_Found),
       s_secret_data =
         (\<lambda>k dataKey.
            if k = (''default'', ''ssh-key'') \<and> dataKey = adminSSHKeySecretKey
            then Inr ''fakesshkey''
            else if k = (''default'', ''pull-secret'') \<and> dataKey = DockerConfigJsonKey
            then Inr ''{}''
            else Inl Not_Found_Error),
       s_job = (\<lambda>k. Not_Found),
       s_config_map = (\<lambda>k. Not_Found),
       s_dns_zone = (\<lambda>k. Not_Found),
       s_request = (\<lambda>k. Not_Found),
       s_namespace = (\<lambda>ns. Found None),
       s_secret = (\<lambda>k. Not_Found),
       s_install_pods = (\<lambda>k. Inr []),
       s_refuses = (\<lambda>a. False) \<rparr>"

definition testClusterDeployment :: cluster_deployment where
  "testClusterDeployment =
     \<lparr> cd_name = ''foo-lqmsh'', cd_namespace = ''default'', cd_generation = 0,
       cd_creation_timestamp = None, cd_deletion_timestamp = None,
       cd_finalizers = {FinalizerDeprovision}, cd_annotations = Map.empty,
       cd_spec =
         \<lparr> sp_cluster_name = ''bar'', sp_base_domain = [], sp_ingress = [],
           sp_installer_image = [], sp_release_image = [], sp_hive_image = [],
           sp_image_set = None, sp_ssh_key = Some ''ssh-key'', sp_pull_secret = ''pull-secret'',
           sp_manage_dns = False, sp_preserve_on_delete = False,
           sp_aws = Some \<lparr> aws_region = ''us-east-1'', aws_user_tags = [] \<rparr>,
           sp_secrets_aws = Some ''aws-credentials'' \<rparr>,
       cd_status =
         \<lparr> st_installed = False, st_installer_image = Some ''installer-image:latest'',
           st_infra_id = ''testFooInfraID'', st_cluster_id = ''testFooClusterUUID'',
           st_install_restarts = 0, st_admin_kubeconfig_secret = [], st_api_url = [],
           st_web_console_url = [], st_conditions = [] \<rparr> \<rparr>"

definition testClusterDeploymentWithoutFinalizer :: cluster_deployment where
  "testClusterDeploymentWithoutFinalizer = testClusterDeployment\<lparr>cd_finalizers := {}\<rparr>"

definition testDeletedClusterDeployment :: cluster_deployment where
  "testDeletedClusterDeployment = testClusterDeployment\<lparr>cd_deletion_timestamp := Some (now test_env)\<rparr>"

text \<open>Created 60 minutes before the pass, to be deleted after 5 minutes.\<close>

definition testExpiredClusterDeployment :: cluster_deployment where
  "testExpiredClusterDeployment =
     testClusterDeployment
       \<lparr>cd_creation_timestamp := Some 0,
        cd_annotations := [deleteAfterAnnotation \<mapsto> ''5m'']\<rparr>"

text \<open>The install job as the generator of \<open>test_env\<close> builds it, with the owner and the
  hash the controller adds.\<close>

definition testInstallJob :: job where
  "testInstallJob =
     (test_job ''default'' ''foo-lqmsh-install'')
       \<lparr>job_annotations := Some [jobHashAnnotation \<mapsto> ''md5-spec''],
        job_owner := Some ''foo-lqmsh''\<rparr>"

definition testDNSZone :: dns_zone where
  "testDNSZone =
     \<lparr> dz_name = ''foo-lqmsh-zone'', dz_namespace = ''default'', dz_deletion_timestamp = None,
       dz_owner = None, dz_zone = [], dz_link_to_parent = False, dz_account_secret = [],
       dz_region = [], dz_additional_tags = {}, dz_conditions = [] \<rparr>"

definition store_with_job :: "job \<Rightarrow> store" where
  "store_with_job j =
     test_store\<lparr>s_job := (s_job test_store)((''default'', ''foo-lqmsh-install'') := Found j)\<rparr>"

definition testClusterDeploymentWithIngress :: cluster_deployment where
  "testClusterDeploymentWithIngress =
     testClusterDeployment\<lparr>cd_spec := (cd_spec testClusterDeployment)\<lparr>sp_ingress :=
       [\<lparr>ing_name = ''default'', ing_domain = ''apps.bar.example.com''\<rparr>]\<rparr>\<rparr>"

text \<open>The deployment of the test "Migrate wildcard ingress domains".\<close>

definition testWildcardClusterDeployment :: cluster_deployment where
  "testWildcardClusterDeployment =
     testClusterDeployment\<lparr>cd_spec := (cd_spec testClusterDeployment)\<lparr>sp_ingress :=
       [\<lparr>ing_name = ''default'', ing_domain = ''*.apps.bar.example.com''\<rparr>,
        \<lparr>ing_name = ''extraingress'', ing_domain = ''*.moreingress.bar.example.com''\<rparr>,
        \<lparr>ing_name = ''notwildcardingress'', ing_domain = ''notwild.bar.example.com''\<rparr>]\<rparr>\<rparr>"

definition testMigratedClusterDeployment :: cluster_deployment where
  "testMigratedClusterDeployment =
     testClusterDeployment\<lparr>cd_spec := (cd_spec testClusterDeployment)\<lparr>sp_ingress :=
       [\<lparr>ing_name = ''default'', ing_domain = ''apps.bar.example.com''\<rparr>,
        \<lparr>ing_name = ''extraingress'', ing_domain = ''moreingress.bar.example.com''\<rparr>,
        \<lparr>ing_name = ''notwildcardingress'', ing_domain = ''notwild.bar.example.com''\<rparr>]\<rparr>\<rparr>"


text \<open>Created one minute before the pass, to be deleted after 5 minutes.\<close>

definition testUnexpiredClusterDeployment :: cluster_deployment where
  "testUnexpiredClusterDeployment =
     testClusterDeployment
       \<lparr>cd_creation_timestamp := Some 3540000000000,
        cd_annotations := [deleteAfterAnnotation \<mapsto> ''5m'']\<rparr>"

definition testExpiredWildcardClusterDeployment :: cluster_deployment where
  "testExpiredWildcardClusterDeployment =
     testWildcardClusterDeployment
       \<lparr>cd_creation_timestamp := Some 0,
        cd_annotations := [deleteAfterAnnotation \<mapsto> ''5m'']\<rparr>"

text \<open>The config map as the generator of \<open>test_env\<close> builds it, with the owner the
  controller adds.\<close>

definition testConfigMap :: config_map where
  "testConfigMap =
     \<lparr> cm_name = ''foo-lqmsh-install-config'', cm_namespace = ''default'',
       cm_annotations = Some Map.empty, cm_owner = Some ''foo-lqmsh'' \<rparr>"


text \<open>Fixtures of the deletion workflow: the deleted deployment with a managed DNS zone
  (test "Ensure managed DNSZone is deleted with cluster deployment"), with
  \<^verbatim>\<open>PreserveOnDelete\<close> (tests "Test PreserveOnDelete" and "Test creation of uninstall
  job when PreserveOnDelete is true but cluster deployment is not installed"), and the
  deprovision request built for it.\<close>

definition testDeletedManagedDNSClusterDeployment :: cluster_deployment where
  "testDeletedManagedDNSClusterDeployment =
     testDeletedClusterDeployment
       \<lparr>cd_spec := (cd_spec testDeletedClusterDeployment)\<lparr>sp_manage_dns := True\<rparr>\<rparr>"

definition store_with_job_and_zone :: "job \<Rightarrow> dns_zone \<Rightarrow> store" where
  "store_with_job_and_zone j z =
     (store_with_job j)
       \<lparr>s_dns_zone := (s_dns_zone test_store)((''default'', ''foo-lqmsh-zone'') := Found z)\<rparr>"

definition testPreservedInstalled :: cluster_deployment where
  "testPreservedInstalled =
     testDeletedClusterDeployment
       \<lparr>cd_spec := (cd_spec testDeletedClusterDeployment)\<lparr>sp_preserve_on_delete := True\<rparr>,
        cd_status := (cd_status testDeletedClusterDeployment)\<lparr>st_installed := True\<rparr>\<rparr>"

definition testPreservedNotInstalled :: cluster_deployment where
  "testPreservedNotInstalled =
     testDeletedClusterDeployment
       \<lparr>cd_spec := (cd_spec testDeletedClusterDeployment)\<lparr>sp_preserve_on_delete := True\<rparr>\<rparr>"

definition testDeprovisionRequest :: deprovision_request where
  "testDeprovisionRequest =
     \<lparr> dr_name = ''foo-lqmsh'', dr_namespace = ''default'', dr_owner = Some ''foo-lqmsh'',
       dr_infra_id = ''testFooInfraID'', dr_cluster_id = ''testFooClusterUUID'',
       dr_region = ''us-east-1'', dr_credentials = Some ''aws-credentials'',
       dr_completed = False \<rparr>"


text \<open>Fixtures of the forward path: a deployment that manages DNS on a platform that is
  not AWS; a deployment whose installer image is not resolved yet, with its image-set job
  finished and being deleted; an installed deployment (test "Ignore old install job hash
  difference if cluster already installed"); an install job without the hash annotation
  (test "Delete old install job when job hash missing").\<close>

definition testManagedDNSNotAWS :: cluster_deployment where
  "testManagedDNSNotAWS =
     testClusterDeployment
       \<lparr>cd_spec := (cd_spec testClusterDeployment)\<lparr>sp_manage_dns := True, sp_aws := None\<rparr>\<rparr>"

definition testManagedDNS :: cluster_deployment where
  "testManagedDNS =
     testClusterDeployment
       \<lparr>cd_spec := (cd_spec testClusterDeployment)\<lparr>sp_manage_dns := True\<rparr>\<rparr>"

definition testCreatedDNSZone :: dns_zone where
  "testCreatedDNSZone =
     \<lparr> dz_name = ''foo-lqmsh-zone'', dz_namespace = ''default'', dz_deletion_timestamp = None,
       dz_owner = Some ''foo-lqmsh'', dz_zone = [], dz_link_to_parent = True,
       dz_account_secret = ''aws-credentials'', dz_region = ''us-east-1'',
       dz_additional_tags = {}, dz_conditions = [] \<rparr>"

definition testUnresolvedClusterDeployment :: cluster_deployment where
  "testUnresolvedClusterDeployment =
     testClusterDeployment
       \<lparr>cd_status := (cd_status testClusterDeployment)\<lparr>st_installer_image := None\<rparr>\<rparr>"

definition testTerminatingImageSetJob :: job where
  "testTerminatingImageSetJob =
     (test_job ''default'' ''foo-lqmsh-imageset'')
       \<lparr>job_deletion_timestamp := Some 3599000000000, job_successful := True\<rparr>"

definition store_with_imageset_job :: "job \<Rightarrow> store" where
  "store_with_imageset_job j =
     test_store\<lparr>s_job := (s_job test_store)((''default'', ''foo-lqmsh-imageset'') := Found j)\<rparr>"

definition testInstalledClusterDeployment :: cluster_deployment where
  "testInstalledClusterDeployment =
     testClusterDeployment
       \<lparr>cd_status := (cd_status testClusterDeployment)
          \<lparr>st_installed := True, st_admin_kubeconfig_secret := ''foo-lqmsh-admin-kubeconfig''\<rparr>\<rparr>"

definition testInstallJobWithoutHash :: job where
  "testInstallJobWithoutHash = testInstallJob\<lparr>job_annotations := Some Map.empty\<rparr>"


text \<open>A store that holds the deployment of the tests and an install job.\<close>

definition store_with_cd_and_job :: "cluster_deployment \<Rightarrow> job \<Rightarrow> store" where
  "store_with_cd_and_job cd j =
     (store_with_job j)
       \<lparr>s_cluster_deployment :=
          (s_cluster_deployment test_store)((''default'', ''foo-lqmsh'') := Found cd)\<rparr>"

section \<open>Properties\<close>

lemmas fixture_defs = test_env_def test_store_def testClusterDeployment_def test_job_def
  testClusterDeploymentWithoutFinalizer_def testDeletedClusterDeployment_def
  testExpiredClusterDeployment_def testInstallJob_def testDNSZone_def store_with_job_def
  testClusterDeploymentWithIngress_def testWildcardClusterDeployment_def
  testMigratedClusterDeployment_def testUnexpiredClusterDeployment_def
  testExpiredWildcardClusterDeployment_def testConfigMap_def
  testDeletedManagedDNSClusterDeployment_def store_with_job_and_zone_def
  testPreservedInstalled_def testPreservedNotInstalled_def testDeprovisionRequest_def
  testManagedDNSNotAWS_def testManagedDNS_def testCreatedDNSZone_def
  testUnresolvedClusterDeployment_def testTerminatingImageSetJob_def
  store_with_imageset_job_def testInstalledClusterDeployment_def
  testInstallJobWithoutHash_def store_with_cd_and_job_def

lemmas constant_defs = deleteAfterAnnotation_def adminSSHKeySecretKey_def adminKubeconfigKey_def
  rawAdminKubeconfigKey_def clusterDeploymentGenerationAnnotation_def jobHashAnnotation_def
  serviceAccountName_def second_def defaultRequeueTime_def FinalizerDeprovision_def
  ClusterImageSetNotFoundCondition_def ZoneAvailableDNSZoneCondition_def
  DockerConfigJsonKey_def clusterImageSetNotFoundReason_def clusterImageSetFoundReason_def

lemmas step_defs = reconcile_def reconcile_run_def reconcileProvision_def checkDeleteAfter_def
  installAndConverge_def updateClusterDeploymentStatus_def syncAdminKubeconfig_def
  healAdminKubeconfigSecret_def mirrorInstalled_def setAdminKubeconfigStatus_def
  fixupAdminKubeconfigSecret_def reconcileInstallJob_def deleteJobOnHashChange_def
  newJobNeeded_def updateOutdatedConfigurations_def calcInstallPodRestarts_def
  calculateJobSpecHash_def ensureManagedDNSZone_def createManagedDNSZone_def
  FindDNSZoneCondition_def resolveInstallerImage_def IsFinished_def
  syncDeletedClusterDeployment_def generateDeprovisionRequest_def
  ensureManagedDNSZoneDeleted_def removeClusterDeploymentFinalizer_def
  addClusterDeploymentFinalizer_def dnsZoneName_def getClusterImageSet_def
  setImageSetNotFoundCondition_def getReleaseImage_def getHiveImage_def
  migrateWildcardIngress_def time_after_def time_sub_def time_add_def lookup_def
  lookup_or_empty_def HasFinalizer_def AddFinalizer_def DeleteFinalizer_def attempt_def

subsection \<open>Wildcard ingress migration\<close>

lemma strip_changes_iff: "wildcardDomain_strip d \<noteq> d \<longleftrightarrow> is_wildcard d"
proof -
  have "take 2 d = ''*.'' \<Longrightarrow> drop 2 d \<noteq> d"
  proof
    assume a: "take 2 d = ''*.''" and b: "drop 2 d = d"
    from a have "length (take 2 d) = 2" by simp
    then have "2 \<le> length d" by simp
    moreover from b have "length (drop 2 d) = length d" by simp
    ultimately show False by simp
  qed
  then show ?thesis by (auto simp: wildcardDomain_strip_def is_wildcard_def)
qed

lemma migrate_loop_eq:
  "migrate_loop xs m = (map migrate_entry xs, m \<or> (\<exists>i\<in>set xs. is_wildcard (ing_domain i)))"
proof (induction xs arbitrary: m)
  case Nil
  then show ?case by simp
next
  case (Cons i xs)
  show ?case
  proof (cases "is_wildcard (ing_domain i)")
    case True
    then have "wildcardDomain_strip (ing_domain i) \<noteq> ing_domain i"
      by (simp add: strip_changes_iff)
    moreover from True have "wildcardDomain_strip (ing_domain i) = drop 2 (ing_domain i)"
      by (simp add: wildcardDomain_strip_def is_wildcard_def)
    ultimately show ?thesis using True Cons.IH [of True]
      by (simp add: Let_def migrate_entry_def)
  next
    case False
    then have "wildcardDomain_strip (ing_domain i) = ing_domain i"
      using strip_changes_iff by blast
    then show ?thesis using False Cons.IH [of m]
      by (simp add: Let_def migrate_entry_def)
  qed
qed

lemma migrateWildcardIngress_eq:
  "migrateWildcardIngress cd =
     (cd\<lparr>cd_spec := (cd_spec cd)\<lparr>sp_ingress := map migrate_entry (sp_ingress (cd_spec cd))\<rparr>\<rparr>,
      \<exists>i\<in>set (sp_ingress (cd_spec cd)). is_wildcard (ing_domain i))"
  by (simp add: migrateWildcardIngress_def migrate_loop_eq)

lemma map_migrate_entry_id:
  "\<forall>i\<in>set xs. \<not> is_wildcard (ing_domain i) \<Longrightarrow> map migrate_entry xs = xs"
  by (induction xs) (auto simp: migrate_entry_def)

lemma migrateWildcardIngress_none:
  "\<forall>i\<in>set (sp_ingress (cd_spec cd)). \<not> is_wildcard (ing_domain i)
   \<Longrightarrow> migrateWildcardIngress cd = (cd, False)"
  by (simp add: migrateWildcardIngress_eq map_migrate_entry_id)

text \<open>
  Claim C6. A domain that begins with \<^verbatim>\<open>*.\<close> loses exactly these two characters, any
  other domain is unchanged; \<^verbatim>\<open>migrateWildcardIngress\<close> changes nothing of the
  deployment but the domains of its wildcard entries. When some entry is a wildcard, the
  pass issues one write, the update of the migrated deployment, and returns at once: done
  when the store accepts the update, the store's error otherwise. A deployment with no
  wildcard entry is returned unchanged, with the flag unset.
\<close>

theorem C6_wildcard_migration:
  "(is_wildcard d \<longrightarrow> (\<exists>rest. d = ''*.'' @ rest \<and> wildcardDomain_strip d = rest))
   \<and> (\<not> is_wildcard d \<longrightarrow> wildcardDomain_strip d = d)
   \<and> fst (migrateWildcardIngress cd) =
       cd\<lparr>cd_spec := (cd_spec cd)\<lparr>sp_ingress := map migrate_entry (sp_ingress (cd_spec cd))\<rparr>\<rparr>
   \<and> ((\<exists>i\<in>set (sp_ingress (cd_spec cd)). is_wildcard (ing_domain i)) \<longrightarrow>
        reconcile e s cd =
          ([Update_CD (fst (migrateWildcardIngress cd))],
           (Done, if s_refuses s (Update_CD (fst (migrateWildcardIngress cd)))
                  then Some Store_Error else None)))
   \<and> ((\<forall>i\<in>set (sp_ingress (cd_spec cd)). \<not> is_wildcard (ing_domain i)) \<longrightarrow>
        migrateWildcardIngress cd = (cd, False))"
proof (intro conjI impI)
  assume "is_wildcard d"
  then have t: "take 2 d = ''*.''" by (simp add: is_wildcard_def)
  have "d = take 2 d @ drop 2 d" by simp
  with t have "d = ''*.'' @ drop 2 d" by metis
  moreover from t have "wildcardDomain_strip d = drop 2 d"
    by (simp add: wildcardDomain_strip_def)
  ultimately show "\<exists>rest. d = ''*.'' @ rest \<and> wildcardDomain_strip d = rest"
    by blast
next
  assume "\<not> is_wildcard d"
  then show "wildcardDomain_strip d = d" using strip_changes_iff by blast
next
  show "fst (migrateWildcardIngress cd) =
       cd\<lparr>cd_spec := (cd_spec cd)\<lparr>sp_ingress := map migrate_entry (sp_ingress (cd_spec cd))\<rparr>\<rparr>"
    by (simp add: migrateWildcardIngress_eq)
next
  assume "\<exists>i\<in>set (sp_ingress (cd_spec cd)). is_wildcard (ing_domain i)"
  then show "reconcile e s cd =
          ([Update_CD (fst (migrateWildcardIngress cd))],
           (Done, if s_refuses s (Update_CD (fst (migrateWildcardIngress cd)))
                  then Some Store_Error else None))"
    by (simp add: reconcile_def reconcile_run_def migrateWildcardIngress_eq attempt_def)
next
  assume "\<forall>i\<in>set (sp_ingress (cd_spec cd)). \<not> is_wildcard (ing_domain i)"
  then show "migrateWildcardIngress cd = (cd, False)"
    by (rule migrateWildcardIngress_none)
qed

theorem C6_wildcard_migration_witness:
  "is_wildcard ''*.apps.bar.example.com''
   \<and> wildcardDomain_strip ''*.apps.bar.example.com'' = ''apps.bar.example.com''
   \<and> \<not> is_wildcard ''notwild.bar.example.com''
   \<and> wildcardDomain_strip ''notwild.bar.example.com'' = ''notwild.bar.example.com''
   \<and> reconcile test_env test_store testWildcardClusterDeployment =
        ([Update_CD testMigratedClusterDeployment], (Done, None))
   \<and> migrateWildcardIngress testClusterDeploymentWithIngress =
        (testClusterDeploymentWithIngress, False)"
proof -
  have w: "\<exists>i\<in>set (sp_ingress (cd_spec testWildcardClusterDeployment)).
             is_wildcard (ing_domain i)"
    by (simp add: fixture_defs is_wildcard_def)
  have n: "\<forall>i\<in>set (sp_ingress (cd_spec testClusterDeploymentWithIngress)).
             \<not> is_wildcard (ing_domain i)"
    by (simp add: fixture_defs is_wildcard_def)
  have m: "fst (migrateWildcardIngress testWildcardClusterDeployment) =
             testMigratedClusterDeployment"
    by (simp add: migrateWildcardIngress_def wildcardDomain_strip_def fixture_defs)
  have r: "\<not> s_refuses test_store (Update_CD testMigratedClusterDeployment)"
    by (simp add: test_store_def)
  from C6_wildcard_migration [of "''*.apps.bar.example.com''" testWildcardClusterDeployment
      test_env test_store] w m r
  have 1: "is_wildcard ''*.apps.bar.example.com''
     \<and> wildcardDomain_strip ''*.apps.bar.example.com'' = ''apps.bar.example.com''
     \<and> reconcile test_env test_store testWildcardClusterDeployment =
        ([Update_CD testMigratedClusterDeployment], (Done, None))"
    by (simp add: is_wildcard_def)
  from C6_wildcard_migration [of "''notwild.bar.example.com''" testClusterDeploymentWithIngress
      test_env test_store] n
  have 2: "\<not> is_wildcard ''notwild.bar.example.com''
     \<and> wildcardDomain_strip ''notwild.bar.example.com'' = ''notwild.bar.example.com''
     \<and> migrateWildcardIngress testClusterDeploymentWithIngress =
        (testClusterDeploymentWithIngress, False)"
    by (simp add: is_wildcard_def)
  from 1 2 show ?thesis by simp
qed

subsection \<open>The steps before provisioning\<close>

lemma getClusterImageSet_passes:
  "getClusterImageSet e s cd = (ws, imageSet, False, None, cd') \<Longrightarrow> ws = [] \<and> cd' = cd"
  by (auto simp: getClusterImageSet_def setImageSetNotFoundCondition_def Let_def attempt_def
      split: option.splits if_splits fetched.splits)

lemma checkDeleteAfter_Inr:
  "checkDeleteAfter e s cd = (ws, Inr ra) \<Longrightarrow> ws = []"
  by (auto simp: checkDeleteAfter_def Let_def split: option.splits sum.splits if_splits)

lemma reconcileProvision_Inr:
  "reconcileProvision e s cd origCD hiveImage releaseImage sshKey ra0 = (ws, Inr ra) \<Longrightarrow> ra = ra0"
  by (auto simp: reconcileProvision_def installAndConverge_def Let_def
      split: prod.splits option.splits sum.splits if_splits fetched.splits bool.splits)

lemma reconcile_run_Inr:
  assumes "reconcile_run e s cd = (ws, Inr ra)"
  shows "checkDeleteAfter e s cd = ([], Inr ra) \<and> cd_deletion_timestamp cd = None
         \<and> migrateWildcardIngress cd = (cd, False)"
proof -
  obtain cd0 m where mig: "migrateWildcardIngress cd = (cd0, m)" by fastforce
  have m: "\<not> m" using assms mig by (auto simp: reconcile_run_def)
  then have cd0: "cd0 = cd" using mig
    by (auto simp: migrateWildcardIngress_eq map_migrate_entry_id)
  obtain ws1 iset modified err cd1 where g: "getClusterImageSet e s cd = (ws1, iset, modified, err, cd1)"
    by (metis prod_cases5)
  have ok: "\<not> modified" "err = None" using assms mig m cd0 g
    by (auto simp: reconcile_run_def split: if_splits)
  with g have "getClusterImageSet e s cd = (ws1, iset, False, None, cd1)" by simp
  then have p: "ws1 = []" "cd1 = cd" by (auto dest: getClusterImageSet_passes)
  show ?thesis using assms mig m cd0 g ok p
    by (auto simp: reconcile_run_def Let_def dest: reconcileProvision_Inr checkDeleteAfter_Inr
        split: if_splits prod.splits sum.splits option.splits)
qed



subsection \<open>The requeue time\<close>

lemma requeue_as_int:
  assumes "u \<le> t"
  shows "time_sub t u + 60 * second = word_of_int (min (2 ^ 63 - 1) (t - u) + 60000000000)"
proof -
  have "max (- (2 ^ 63)) (min (2 ^ 63 - 1) (t - u)) = min (2 ^ 63 - 1) (t - u)"
    using assms by simp
  then show ?thesis by (simp add: time_sub_def second_def)
qed

lemma requeue_nonzero:
  assumes "u \<le> t"
  shows "time_sub t u + 60 * second \<noteq> 0"
proof -
  let ?k = "min (2 ^ 63 - 1) (t - u) + 60000000000 :: int"
  have pos: "0 < ?k" using assms by simp
  have lt: "?k < 2 ^ LENGTH(64)" by simp
  have "\<not> (2 ^ LENGTH(64) :: int) dvd ?k"
    using pos lt by (rule zdvd_not_zless)
  then have "(word_of_int ?k :: 64 word) \<noteq> 0"
    unfolding word_of_int_eq_0_iff .
  then show ?thesis unfolding requeue_as_int [OF assms] .
qed

lemma requeue_exact:
  assumes "u \<le> t" and "t - u + 60000000000 < 2 ^ 63"
  shows "sint (time_sub t u + 60 * second) = t - u + 60000000000"
proof -
  let ?k = "t - u + 60000000000 :: int"
  have m: "min (2 ^ 63 - 1) (t - u) = t - u" using assms by simp
  have "sint (word_of_int ?k :: 64 word) = signed_take_bit (LENGTH(64) - 1) ?k"
    by (rule sint_sbintrunc')
  also have "\<dots> = ?k"
    using assms by (simp add: signed_take_bit_int_eq_self_iff)
  finally show ?thesis unfolding requeue_as_int [OF assms(1)] m .
qed

subsection \<open>The finalizer\<close>

text \<open>
  Claim C5 (as amended). For a deployment with no deprovision finalizer and no deletion
  timestamp that the earlier steps of the pass let through (no ingress entry is a
  wildcard, the image-set lookup neither fails nor changes a condition, the delete-after
  annotation is absent or has not elapsed), the pass issues exactly one write: the update
  of the deployment with the finalizer added and every other field as it was. It then
  returns done, or the store's error when the update is refused.
\<close>

theorem C5_finalizer_added:
  assumes "\<not> HasFinalizer cd FinalizerDeprovision"
      and "cd_deletion_timestamp cd = None"
      and "\<forall>i\<in>set (sp_ingress (cd_spec cd)). \<not> is_wildcard (ing_domain i)"
      and "getClusterImageSet e s cd = (ws1, imageSet, False, None, cd1)"
      and "checkDeleteAfter e s cd = (ws2, Inr requeueAfter)"
  shows "reconcile e s cd =
           ([Update_CD (cd\<lparr>cd_finalizers := insert FinalizerDeprovision (cd_finalizers cd)\<rparr>)],
            (Done,
             if s_refuses s
                  (Update_CD (cd\<lparr>cd_finalizers := insert FinalizerDeprovision (cd_finalizers cd)\<rparr>))
             then Some Store_Error else None))"
proof -
  have m: "migrateWildcardIngress cd = (cd, False)"
    using assms(3) by (rule migrateWildcardIngress_none)
  have p: "ws1 = []" "cd1 = cd" using assms(4) by (auto dest: getClusterImageSet_passes)
  have q: "ws2 = []" using assms(5) by (rule checkDeleteAfter_Inr)
  show ?thesis
    using assms(1,2,4,5) m p q
    by (simp add: reconcile_def reconcile_run_def addClusterDeploymentFinalizer_def
        AddFinalizer_def attempt_def)
qed

text \<open>The deployment of the test "Add finalizer".\<close>

theorem C5_finalizer_added_witness:
  "\<not> HasFinalizer testClusterDeploymentWithoutFinalizer FinalizerDeprovision
   \<and> cd_deletion_timestamp testClusterDeploymentWithoutFinalizer = None
   \<and> reconcile test_env test_store testClusterDeploymentWithoutFinalizer =
        ([Update_CD testClusterDeployment], (Done, None))"
proof -
  have 1: "\<not> HasFinalizer testClusterDeploymentWithoutFinalizer FinalizerDeprovision"
    by (simp add: HasFinalizer_def fixture_defs)
  have 2: "cd_deletion_timestamp testClusterDeploymentWithoutFinalizer = None"
    by (simp add: fixture_defs)
  have 3: "\<forall>i\<in>set (sp_ingress (cd_spec testClusterDeploymentWithoutFinalizer)).
             \<not> is_wildcard (ing_domain i)"
    by (simp add: fixture_defs)
  have 4: "getClusterImageSet test_env test_store testClusterDeploymentWithoutFinalizer =
             ([], None, False, None, testClusterDeploymentWithoutFinalizer)"
    by (simp add: getClusterImageSet_def fixture_defs)
  have 5: "checkDeleteAfter test_env test_store testClusterDeploymentWithoutFinalizer =
             ([], Inr 0)"
    by (simp add: checkDeleteAfter_def fixture_defs)
  have 6: "testClusterDeploymentWithoutFinalizer
             \<lparr>cd_finalizers := insert FinalizerDeprovision
                (cd_finalizers testClusterDeploymentWithoutFinalizer)\<rparr> = testClusterDeployment"
    by (simp add: fixture_defs)
  have 7: "\<not> s_refuses test_store (Update_CD testClusterDeployment)"
    by (simp add: test_store_def)
  from C5_finalizer_added [OF 1 2 3 4 5] 1 2 6 7 show ?thesis by simp
qed

text \<open>Claim C5 as stated fails: a deployment with no finalizer and no deletion timestamp
  whose delete-after annotation has elapsed is deleted by the pass; no finalizer is
  added.\<close>

theorem C5_expired_without_finalizer_counterexample:
  "\<not> HasFinalizer (testExpiredClusterDeployment\<lparr>cd_finalizers := {}\<rparr>) FinalizerDeprovision
   \<and> cd_deletion_timestamp (testExpiredClusterDeployment\<lparr>cd_finalizers := {}\<rparr>) = None
   \<and> reconcile test_env test_store (testExpiredClusterDeployment\<lparr>cd_finalizers := {}\<rparr>) =
        ([Delete_CD (testExpiredClusterDeployment\<lparr>cd_finalizers := {}\<rparr>)], (Done, None))"
  by (simp add: step_defs fixture_defs constant_defs)

subsection \<open>Expiry\<close>

text \<open>
  Claim C7 (as amended). For a live deployment whose delete-after annotation parses and
  whose creation timestamp is set: if creation time plus the duration is in the past and
  the two earlier steps let the pass through (no ingress entry is a wildcard, the
  image-set lookup neither fails nor changes a condition), the pass issues the delete of
  the deployment as its only write and returns; if it is not in the past and the pass
  reaches its end, the result is a requeue after \<^verbatim>\<open>expiry.Sub(now) + 60s\<close>, which is the
  time remaining plus 60 seconds whenever that sum is below \<open>2 ^ 63\<close> nanoseconds.
\<close>

theorem C7_delete_after:
  assumes "cd_deletion_timestamp cd = None"
      and "cd_annotations cd deleteAfterAnnotation = Some deleteAfter"
      and "parseDuration e deleteAfter = Inr dur"
      and "cd_creation_timestamp cd = Some created"
  shows "(created + sint dur < now e
          \<and> (\<forall>i\<in>set (sp_ingress (cd_spec cd)). \<not> is_wildcard (ing_domain i))
          \<and> getClusterImageSet e s cd = ([], imageSet, False, None, cd)
          \<longrightarrow> reconcile e s cd =
                ([Delete_CD cd],
                 (Done, if s_refuses s (Delete_CD cd) then Some Store_Error else None)))
       \<and> (\<not> created + sint dur < now e \<and> reconcile_run e s cd = (ws, Inr requeueAfter)
          \<longrightarrow> requeueAfter = time_sub (created + sint dur) (now e) + 60 * second
              \<and> reconcile e s cd = (ws, (Requeue_After requeueAfter, None)))
       \<and> (\<not> created + sint dur < now e \<and> created + sint dur - now e + 60000000000 < 2 ^ 63
          \<longrightarrow> sint (time_sub (created + sint dur) (now e) + 60 * second)
                = created + sint dur - now e + 60000000000)"
proof -
  have 1: "reconcile e s cd =
          ([Delete_CD cd], (Done, if s_refuses s (Delete_CD cd) then Some Store_Error else None))"
    if a: "created + sint dur < now e
          \<and> (\<forall>i\<in>set (sp_ingress (cd_spec cd)). \<not> is_wildcard (ing_domain i))
          \<and> getClusterImageSet e s cd = ([], imageSet, False, None, cd)"
  proof -
    from a have m: "migrateWildcardIngress cd = (cd, False)"
      by (simp add: migrateWildcardIngress_none)
    have c: "checkDeleteAfter e s cd = ([Delete_CD cd], Inl (Done, attempt s (Delete_CD cd)))"
      using assms a by (simp add: checkDeleteAfter_def time_add_def time_after_def)
    show ?thesis
      using assms(1) a m c by (simp add: reconcile_def reconcile_run_def attempt_def)
  qed
  have 2: "requeueAfter = time_sub (created + sint dur) (now e) + 60 * second
              \<and> reconcile e s cd = (ws, (Requeue_After requeueAfter, None))"
    if a: "\<not> created + sint dur < now e \<and> reconcile_run e s cd = (ws, Inr requeueAfter)"
  proof -
    from a have "checkDeleteAfter e s cd = ([], Inr requeueAfter)"
      using reconcile_run_Inr by blast
    moreover have "checkDeleteAfter e s cd =
        ([], Inr (time_sub (created + sint dur) (now e) + 60 * second))"
      using assms a by (simp add: checkDeleteAfter_def time_add_def time_after_def)
    ultimately have r: "requeueAfter = time_sub (created + sint dur) (now e) + 60 * second"
      by simp
    have "now e \<le> created + sint dur" using a by simp
    then have "requeueAfter \<noteq> 0" unfolding r by (rule requeue_nonzero)
    then have "reconcile e s cd = (ws, (Requeue_After requeueAfter, None))"
      using a by (simp add: reconcile_def)
    with r show ?thesis by simp
  qed
  have 3: "sint (time_sub (created + sint dur) (now e) + 60 * second)
                = created + sint dur - now e + 60000000000"
    if "\<not> created + sint dur < now e \<and> created + sint dur - now e + 60000000000 < 2 ^ 63"
    using that by (simp add: requeue_exact)
  from 1 2 3 show ?thesis by blast
qed

text \<open>The deployment of the test "Delete expired cluster deployment", and one that has
  not expired and whose install job is unchanged.\<close>

theorem C7_delete_after_witness:
  "reconcile test_env test_store testExpiredClusterDeployment =
     ([Delete_CD testExpiredClusterDeployment], (Done, None))
   \<and> reconcile test_env (store_with_job testInstallJob) testUnexpiredClusterDeployment =
       ([Create_ConfigMap testConfigMap], (Requeue_After 300000000000, None))
   \<and> sint (time_sub (3540000000000 + sint (300 * second)) (now test_env) + 60 * second)
       = 300000000000"
proof -
  have x1: "cd_deletion_timestamp testExpiredClusterDeployment = None"
    and x2: "cd_annotations testExpiredClusterDeployment deleteAfterAnnotation = Some ''5m''"
    and x3: "parseDuration test_env ''5m'' = Inr (300 * second)"
    and x4: "cd_creation_timestamp testExpiredClusterDeployment = Some 0"
    by (simp_all add: fixture_defs)
  have x5: "0 + sint (300 * second) < now test_env
            \<and> (\<forall>i\<in>set (sp_ingress (cd_spec testExpiredClusterDeployment)).
                  \<not> is_wildcard (ing_domain i))
            \<and> getClusterImageSet test_env test_store testExpiredClusterDeployment =
                ([], None, False, None, testExpiredClusterDeployment)"
    by (simp add: getClusterImageSet_def fixture_defs second_def)
  have x6: "\<not> s_refuses test_store (Delete_CD testExpiredClusterDeployment)"
    by (simp add: test_store_def)
  have y1: "cd_deletion_timestamp testUnexpiredClusterDeployment = None"
    and y2: "cd_annotations testUnexpiredClusterDeployment deleteAfterAnnotation = Some ''5m''"
    and y4: "cd_creation_timestamp testUnexpiredClusterDeployment = Some 3540000000000"
    by (simp_all add: fixture_defs)
  have y5: "\<not> 3540000000000 + sint (300 * second) < now test_env"
    by (simp add: fixture_defs second_def)
  have y6: "reconcile_run test_env (store_with_job testInstallJob) testUnexpiredClusterDeployment
              = ([Create_ConfigMap testConfigMap], Inr 300000000000)"
    by (simp add: step_defs fixture_defs constant_defs)
  have y7: "3540000000000 + sint (300 * second) - now test_env + 60000000000 < 2 ^ 63"
    by (simp add: fixture_defs second_def)
  from C7_delete_after [OF x1 x2 x3 x4, of test_store None] x5 x6
  have 1: "reconcile test_env test_store testExpiredClusterDeployment =
             ([Delete_CD testExpiredClusterDeployment], (Done, None))"
    by simp
  from C7_delete_after [OF y1 y2 x3 y4, of "store_with_job testInstallJob" None
      "[Create_ConfigMap testConfigMap]" 300000000000] y5 y6 y7
  have 2: "reconcile test_env (store_with_job testInstallJob) testUnexpiredClusterDeployment =
             ([Create_ConfigMap testConfigMap], (Requeue_After 300000000000, None))
           \<and> sint (time_sub (3540000000000 + sint (300 * second)) (now test_env) + 60 * second)
               = 3540000000000 + sint (300 * second) - now test_env + 60000000000"
    by blast
  have 3: "3540000000000 + sint (300 * second) - now test_env + 60000000000 = 300000000000"
    by (simp add: fixture_defs second_def)
  from 1 2 3 show ?thesis by simp
qed

text \<open>Claim C7 as stated fails: a live deployment whose delete-after annotation has
  elapsed and whose ingress list holds a wildcard entry is not deleted by the pass; the
  pass migrates the ingress entries and returns.\<close>

theorem C7_expired_wildcard_counterexample:
  "cd_deletion_timestamp testExpiredWildcardClusterDeployment = None
   \<and> cd_annotations testExpiredWildcardClusterDeployment deleteAfterAnnotation = Some ''5m''
   \<and> parseDuration test_env ''5m'' = Inr (300 * second)
   \<and> cd_creation_timestamp testExpiredWildcardClusterDeployment = Some 0
   \<and> 0 + sint (300 * second) < now test_env
   \<and> reconcile test_env test_store testExpiredWildcardClusterDeployment =
        ([Update_CD (testMigratedClusterDeployment
            \<lparr>cd_creation_timestamp := Some 0,
             cd_annotations := [deleteAfterAnnotation \<mapsto> ''5m'']\<rparr>)], (Done, None))"
  by (simp add: step_defs fixture_defs constant_defs wildcardDomain_strip_def)

subsection \<open>The writes each step can issue\<close>

lemma kinds_simps [simp]:
  "kinds [] = {}"
  "kinds (a # ws) = insert (kind_of a) (kinds ws)"
  "kinds (xs @ ys) = kinds xs \<union> kinds ys"
  by (auto simp: kinds_def)

lemma kinds_getClusterImageSet:
  "kinds (fst (getClusterImageSet e s cd)) \<subseteq> {K_Status_Update}"
  by (auto simp: getClusterImageSet_def setImageSetNotFoundCondition_def Let_def
      split: option.splits fetched.splits if_splits)

lemma kinds_checkDeleteAfter:
  "kinds (fst (checkDeleteAfter e s cd)) \<subseteq> {K_Delete_CD}"
  by (auto simp: checkDeleteAfter_def Let_def split: option.splits sum.splits if_splits)

lemma kinds_addClusterDeploymentFinalizer:
  "kinds (fst (addClusterDeploymentFinalizer s cd)) = {K_Update_CD}"
  by (simp add: addClusterDeploymentFinalizer_def Let_def)

lemma kinds_removeClusterDeploymentFinalizer:
  "kinds (fst (removeClusterDeploymentFinalizer s cd)) = {K_Update_CD}"
  by (simp add: removeClusterDeploymentFinalizer_def Let_def)

lemma kinds_resolveInstallerImage:
  "kinds (fst (resolveInstallerImage e s cd imageSet releaseImage hiveImage))
     \<in> {{}, {K_Status_Update}, {K_Delete_Job}, {K_Setup_ServiceAccount},
         {K_Setup_ServiceAccount, K_Create_Job}}"
  by (auto simp: resolveInstallerImage_def Let_def split: option.splits fetched.splits if_splits)

lemma kinds_ensureManagedDNSZone:
  "kinds (fst (ensureManagedDNSZone e s cd)) \<subseteq> {K_Create_DNSZone}"
  by (auto simp: ensureManagedDNSZone_def createManagedDNSZone_def Let_def
      split: option.splits fetched.splits if_splits prod.splits)

lemma kinds_fixupAdminKubeconfigSecret:
  "fixupAdminKubeconfigSecret e s k sec = (ws, err, sec') \<Longrightarrow> kinds ws \<subseteq> {K_Update_Secret}"
  by (auto simp: fixupAdminKubeconfigSecret_def Let_def
      split: option.splits sum.splits if_splits)

lemma kinds_syncAdminKubeconfig:
  "syncAdminKubeconfig e s cd = (ws, err, cd') \<Longrightarrow> kinds ws \<subseteq> {K_Update_Secret}"
  by (auto simp: syncAdminKubeconfig_def dest!: kinds_fixupAdminKubeconfigSecret
      split: option.splits fetched.splits if_splits prod.splits sum.splits)

lemma kinds_updateClusterDeploymentStatus:
  "updateClusterDeploymentStatus e s cd origCD existingJob = (ws, err, cd')
   \<Longrightarrow> kinds ws \<subseteq> {K_Update_Secret, K_Status_Update}"
  by (auto simp: updateClusterDeploymentStatus_def dest!: kinds_syncAdminKubeconfig
      split: option.splits if_splits prod.splits)

lemma kinds_syncDeletedClusterDeployment:
  "kinds (fst (syncDeletedClusterDeployment e s cd hiveImage))
     \<in> {{}, {K_Delete_DNSZone}, {K_Delete_Job}, {K_Update_CD}, {K_Create_Request},
         {K_Create_Request, K_Update_CD}}"
  by (auto simp: syncDeletedClusterDeployment_def ensureManagedDNSZoneDeleted_def
      removeClusterDeploymentFinalizer_def Let_def
      split: option.splits fetched.splits if_splits prod.splits)


lemma kinds_updateOutdatedConfigurations:
  "updateOutdatedConfigurations e s g existingJob cfgMap = (ws, changed, err)
   \<Longrightarrow> kinds ws \<subseteq> {K_Delete_Job, K_Update_ConfigMap}"
  by (auto simp: updateOutdatedConfigurations_def Let_def split: if_splits)

lemma kinds_deleteJobOnHashChange:
  "deleteJobOnHashChange s existingJob job = (ws, deleted, err) \<Longrightarrow> kinds ws \<subseteq> {K_Delete_Job}"
  by (auto simp: deleteJobOnHashChange_def split: if_splits)

lemma kinds_reconcileInstallJob_None:
  "reconcileInstallJob e s cd hiveImage releaseImage sshKey None = (ws, r)
   \<Longrightarrow> kinds ws \<subseteq> {K_Create_ConfigMap, K_Setup_ServiceAccount, K_Create_Job}"
  by (auto simp: reconcileInstallJob_def Let_def
      split: option.splits sum.splits prod.splits if_splits)

lemma kinds_reconcileInstallJob_Some:
  "reconcileInstallJob e s cd hiveImage releaseImage sshKey (Some j) = (ws, r)
   \<Longrightarrow> kinds ws \<subseteq> {K_Create_ConfigMap, K_Delete_Job, K_Update_ConfigMap}"
  by (auto simp: reconcileInstallJob_def Let_def
      dest!: kinds_updateOutdatedConfigurations kinds_deleteJobOnHashChange
      split: option.splits sum.splits prod.splits if_splits)

lemma kinds_installAndConverge_None:
  "installAndConverge e s cd origCD hiveImage releaseImage sshKey ra None = (ws, r)
   \<Longrightarrow> kinds ws \<subseteq> {K_Create_ConfigMap, K_Setup_ServiceAccount, K_Create_Job,
                    K_Update_Secret, K_Status_Update}"
  by (auto simp: installAndConverge_def
      dest!: kinds_reconcileInstallJob_None kinds_updateClusterDeploymentStatus
      split: option.splits sum.splits prod.splits if_splits)

lemma kinds_installAndConverge_Some:
  "installAndConverge e s cd origCD hiveImage releaseImage sshKey ra (Some j) = (ws, r)
   \<Longrightarrow> kinds ws \<subseteq> {K_Create_ConfigMap, K_Delete_Job, K_Update_ConfigMap,
                    K_Update_Secret, K_Status_Update}"
  by (auto simp: installAndConverge_def
      dest!: kinds_reconcileInstallJob_Some kinds_updateClusterDeploymentStatus
      split: option.splits sum.splits prod.splits if_splits)

lemma kinds_reconcileProvision:
  "reconcileProvision e s cd origCD hiveImage releaseImage sshKey ra = (ws, r)
   \<Longrightarrow> kinds ws \<subseteq> {K_Create_DNSZone, K_Create_ConfigMap, K_Setup_ServiceAccount,
                    K_Create_Job, K_Delete_Job, K_Update_ConfigMap, K_Update_Secret,
                    K_Status_Update}
       \<and> \<not> (K_Delete_Job \<in> kinds ws \<and> K_Create_Job \<in> kinds ws)"
  using kinds_ensureManagedDNSZone [of e s cd]
  by (auto simp: reconcileProvision_def
      dest!: kinds_installAndConverge_None kinds_installAndConverge_Some
      split: option.splits sum.splits prod.splits if_splits fetched.splits bool.splits)


lemma reconcile_run_origin:
  "(\<exists>c. fst (reconcile_run e s cd) = [Update_CD c])
   \<or> kinds (fst (reconcile_run e s cd)) \<subseteq> {K_Status_Update}
   \<or> kinds (fst (reconcile_run e s cd)) \<subseteq> {K_Delete_CD}
   \<or> (cd_deletion_timestamp cd \<noteq> None \<and> HasFinalizer cd FinalizerDeprovision
       \<and> (\<exists>h. fst (reconcile_run e s cd) = fst (syncDeletedClusterDeployment e s cd h)))
   \<or> (cd_deletion_timestamp cd = None
       \<and> (\<exists>i r h. fst (reconcile_run e s cd) = fst (resolveInstallerImage e s cd i r h)))
   \<or> (cd_deletion_timestamp cd = None
       \<and> (\<exists>h r k ra. fst (reconcile_run e s cd) = fst (reconcileProvision e s cd cd h r k ra)))"
proof -
  obtain cd0 m where mig: "migrateWildcardIngress cd = (cd0, m)" by fastforce
  show ?thesis
  proof (cases m)
    case True
    then show ?thesis using mig by (simp add: reconcile_run_def)
  next
    case False
    then have cd0: "cd0 = cd" using mig
      by (auto simp: migrateWildcardIngress_eq map_migrate_entry_id)
    obtain ws1 iset modified err cd1
      where g: "getClusterImageSet e s cd = (ws1, iset, modified, err, cd1)"
      by (metis prod_cases5)
    show ?thesis
    proof (cases "modified \<or> err \<noteq> None")
      case True
      then have "fst (reconcile_run e s cd) = ws1"
        using mig False cd0 g by (auto simp: reconcile_run_def)
      moreover have "kinds ws1 \<subseteq> {K_Status_Update}"
        using kinds_getClusterImageSet [of e s cd] g by simp
      ultimately show ?thesis by simp
    next
      case ok: False
      with g have "getClusterImageSet e s cd = (ws1, iset, False, None, cd1)" by simp
      then have p: "ws1 = []" "cd1 = cd" by (auto dest: getClusterImageSet_passes)
      obtain ws2 x where c: "checkDeleteAfter e s cd = (ws2, x)" by fastforce
      have k2: "kinds ws2 \<subseteq> {K_Delete_CD}"
        using kinds_checkDeleteAfter [of e s cd] c by simp
      show ?thesis
      proof (cases "cd_deletion_timestamp cd")
        case (Some y)
        show ?thesis
        proof (cases "HasFinalizer cd FinalizerDeprovision")
          case True
          then have "fst (reconcile_run e s cd) =
              fst (syncDeletedClusterDeployment e s cd (getHiveImage e cd iset))"
            using mig False cd0 g ok p Some
            by (simp add: reconcile_run_def Let_def case_prod_beta)
          then show ?thesis using Some True by blast
        next
          case nf: False
          then have "fst (reconcile_run e s cd) = []"
            using mig False cd0 g ok p Some by (simp add: reconcile_run_def Let_def)
          then show ?thesis by simp
        qed
      next
        case None
        show ?thesis
        proof (cases x)
          case (Inl out)
          then have "fst (reconcile_run e s cd) = ws2"
            using mig False cd0 g ok p None c by (simp add: reconcile_run_def Let_def)
          then show ?thesis using k2 by simp
        next
          case (Inr ra)
          then have w2: "ws2 = []" using c checkDeleteAfter_Inr by blast
          show ?thesis
          proof (cases "HasFinalizer cd FinalizerDeprovision")
            case nf: False
            then have "fst (reconcile_run e s cd) =
                [Update_CD (AddFinalizer cd FinalizerDeprovision)]"
              using mig False cd0 g ok p None c Inr w2
              by (simp add: reconcile_run_def Let_def addClusterDeploymentFinalizer_def)
            then show ?thesis by blast
          next
            case True
            show ?thesis
            proof (cases "sp_ssh_key (cd_spec cd)")
              case n: None
              then have "fst (reconcile_run e s cd) = []"
                using mig False cd0 g ok p None c Inr w2 True
                by (simp add: reconcile_run_def Let_def)
              then show ?thesis by simp
            next
              case (Some sshKeyName)
              show ?thesis
              proof (cases "s_secret_data s (cd_namespace cd, sshKeyName) adminSSHKeySecretKey")
                case (Inl err)
                then have "fst (reconcile_run e s cd) = []"
                  using mig False cd0 g ok p None c Inr w2 True Some
                  by (simp add: reconcile_run_def Let_def)
                then show ?thesis by simp
              next
                case k: (Inr sshKey)
                show ?thesis
                proof (cases "st_installer_image (cd_status cd) = None")
                  case ni: True
                  then have "fst (reconcile_run e s cd) =
                      fst (resolveInstallerImage e s cd iset (getReleaseImage cd iset)
                             (getHiveImage e cd iset))"
                    using mig False cd0 g ok p None c Inr w2 True Some k
                    by (simp add: reconcile_run_def Let_def case_prod_beta)
                  then show ?thesis using None by blast
                next
                  case ii: False
                  then have "fst (reconcile_run e s cd) =
                      fst (reconcileProvision e s cd cd (getHiveImage e cd iset)
                             (getReleaseImage cd iset) sshKey ra)"
                    using mig False cd0 g ok p None c Inr w2 True Some k
                    by (auto simp add: reconcile_run_def Let_def case_prod_beta)
                  then show ?thesis using None by blast
                qed
              qed
            qed
          qed
        qed
      qed
    qed
  qed
qed


subsection \<open>The deletion workflow\<close>

lemma sync_no_request_if_job:
  "s_job s (cd_namespace cd, getInstallJobName e (cd_name cd)) = Found j
   \<Longrightarrow> K_Create_Request \<notin> kinds (fst (syncDeletedClusterDeployment e s cd h))"
  by (auto simp: syncDeletedClusterDeployment_def ensureManagedDNSZoneDeleted_def
      split: option.splits fetched.splits if_splits prod.splits)

lemma sync_no_request_if_preserved:
  "sp_preserve_on_delete (cd_spec cd) \<Longrightarrow> st_installed (cd_status cd)
   \<Longrightarrow> K_Create_Request \<notin> kinds (fst (syncDeletedClusterDeployment e s cd h))"
  by (auto simp: syncDeletedClusterDeployment_def ensureManagedDNSZoneDeleted_def
      removeClusterDeploymentFinalizer_def Let_def
      split: option.splits fetched.splits if_splits prod.splits)

lemma request_only_from_sync:
  assumes "K_Create_Request \<in> kinds (fst (reconcile_run e s cd))"
  shows "\<exists>h. fst (reconcile_run e s cd) = fst (syncDeletedClusterDeployment e s cd h)"
proof -
  have r: "\<And>i r h. K_Create_Request \<notin> kinds (fst (resolveInstallerImage e s cd i r h))"
  proof -
    fix i r h
    show "K_Create_Request \<notin> kinds (fst (resolveInstallerImage e s cd i r h))"
      using kinds_resolveInstallerImage [of e s cd i r h] by auto
  qed
  have p: "\<And>h r k ra. K_Create_Request \<notin> kinds (fst (reconcileProvision e s cd cd h r k ra))"
  proof -
    fix h r k ra
    obtain ws x where "reconcileProvision e s cd cd h r k ra = (ws, x)" by fastforce
    then show "K_Create_Request \<notin> kinds (fst (reconcileProvision e s cd cd h r k ra))"
      using kinds_reconcileProvision by fastforce
  qed
  from reconcile_run_origin [of e s cd] assms r p show ?thesis by auto
qed

lemma fst_reconcile: "fst (reconcile e s cd) = fst (reconcile_run e s cd)"
  by (simp add: reconcile_def split: prod.splits sum.splits)

lemma never_delete_job_and_create_request:
  "\<not> (K_Delete_Job \<in> kinds (fst (reconcile e s cd))
      \<and> K_Create_Request \<in> kinds (fst (reconcile e s cd)))"
proof
  assume a: "K_Delete_Job \<in> kinds (fst (reconcile e s cd))
      \<and> K_Create_Request \<in> kinds (fst (reconcile e s cd))"
  then have b: "K_Create_Request \<in> kinds (fst (reconcile_run e s cd))"
    and c: "K_Delete_Job \<in> kinds (fst (reconcile_run e s cd))"
    by (simp_all add: fst_reconcile)
  from b obtain h where "fst (reconcile_run e s cd) = fst (syncDeletedClusterDeployment e s cd h)"
    using request_only_from_sync by blast
  with b c kinds_syncDeletedClusterDeployment [of e s cd h] show False
    by auto
qed

text \<open>
  Claim C1 (as amended). For a deployment with a deletion timestamp and the deprovision
  finalizer whose install job exists and is not being deleted: no pass creates a
  deprovision request; when the managed-DNS-zone step lets the workflow through (the
  deployment does not manage DNS, or its zone is gone), the workflow issues the
  foreground delete of the job as its only write and returns, done when the store accepts
  the delete. In no pass at all are an install job deleted and a deprovision request
  created.
\<close>

theorem C1_install_job_deleted_first:
  assumes "cd_deletion_timestamp cd \<noteq> None"
      and "HasFinalizer cd FinalizerDeprovision"
      and "s_job s (cd_namespace cd, getInstallJobName e (cd_name cd)) = Found j"
      and "job_deletion_timestamp j = None"
  shows "K_Create_Request \<notin> kinds (fst (reconcile e s cd))
       \<and> (\<not> sp_manage_dns (cd_spec cd)
            \<or> s_dns_zone s (cd_namespace cd, dnsZoneName e (cd_name cd)) = Not_Found
          \<longrightarrow> syncDeletedClusterDeployment e s cd hiveImage =
                ([Delete_Job j Foreground],
                 (Done, if s_refuses s (Delete_Job j Foreground)
                        then Some Store_Error else None)))
       \<and> \<not> (K_Delete_Job \<in> kinds (fst (reconcile e' s' cd'))
              \<and> K_Create_Request \<in> kinds (fst (reconcile e' s' cd')))"
proof -
  have 1: "K_Create_Request \<notin> kinds (fst (reconcile e s cd))"
  proof
    assume "K_Create_Request \<in> kinds (fst (reconcile e s cd))"
    then have a: "K_Create_Request \<in> kinds (fst (reconcile_run e s cd))"
      by (simp add: fst_reconcile)
    then obtain h where "fst (reconcile_run e s cd) = fst (syncDeletedClusterDeployment e s cd h)"
      using request_only_from_sync by blast
    with a sync_no_request_if_job [OF assms(3), of h] show False by simp
  qed
  have 2: "syncDeletedClusterDeployment e s cd hiveImage =
                ([Delete_Job j Foreground],
                 (Done, if s_refuses s (Delete_Job j Foreground)
                        then Some Store_Error else None))"
    if "\<not> sp_manage_dns (cd_spec cd)
            \<or> s_dns_zone s (cd_namespace cd, dnsZoneName e (cd_name cd)) = Not_Found"
    using that assms(3,4)
    by (auto simp: syncDeletedClusterDeployment_def ensureManagedDNSZoneDeleted_def attempt_def)
  from 1 2 never_delete_job_and_create_request [of e' s' cd'] show ?thesis by blast
qed

text \<open>The deployment and the job of the test "Delete cluster deployment".\<close>

theorem C1_install_job_deleted_first_witness:
  "cd_deletion_timestamp testDeletedClusterDeployment \<noteq> None
   \<and> HasFinalizer testDeletedClusterDeployment FinalizerDeprovision
   \<and> K_Create_Request \<notin> kinds (fst (reconcile test_env (store_with_job testInstallJob)
                                         testDeletedClusterDeployment))
   \<and> syncDeletedClusterDeployment test_env (store_with_job testInstallJob)
        testDeletedClusterDeployment ''hive:latest'' =
        ([Delete_Job testInstallJob Foreground], (Done, None))"
proof -
  have 1: "cd_deletion_timestamp testDeletedClusterDeployment \<noteq> None"
    by (simp add: fixture_defs)
  have 2: "HasFinalizer testDeletedClusterDeployment FinalizerDeprovision"
    by (simp add: HasFinalizer_def fixture_defs)
  have 3: "s_job (store_with_job testInstallJob)
             (cd_namespace testDeletedClusterDeployment,
              getInstallJobName test_env (cd_name testDeletedClusterDeployment))
           = Found testInstallJob"
    by (simp add: fixture_defs)
  have 4: "job_deletion_timestamp testInstallJob = None"
    by (simp add: fixture_defs)
  have 5: "\<not> sp_manage_dns (cd_spec testDeletedClusterDeployment)"
    by (simp add: fixture_defs)
  have 6: "\<not> s_refuses (store_with_job testInstallJob) (Delete_Job testInstallJob Foreground)"
    by (simp add: fixture_defs)
  from C1_install_job_deleted_first [OF 1 2 3 4, of "''hive:latest''"] 1 2 5 6
  show ?thesis by simp
qed

text \<open>Claim C1 as stated fails: when the deployment manages DNS and its zone still
  exists, the pass deletes the zone and returns; the install job, which exists and is not
  being deleted, is not deleted in that pass.\<close>

theorem C1_zone_first_counterexample:
  "cd_deletion_timestamp testDeletedManagedDNSClusterDeployment \<noteq> None
   \<and> HasFinalizer testDeletedManagedDNSClusterDeployment FinalizerDeprovision
   \<and> s_job (store_with_job_and_zone testInstallJob testDNSZone)
        (cd_namespace testDeletedManagedDNSClusterDeployment,
         getInstallJobName test_env (cd_name testDeletedManagedDNSClusterDeployment))
      = Found testInstallJob
   \<and> job_deletion_timestamp testInstallJob = None
   \<and> reconcile test_env (store_with_job_and_zone testInstallJob testDNSZone)
        testDeletedManagedDNSClusterDeployment =
        ([Delete_DNSZone testDNSZone Foreground], (Done, None))"
  by (simp add: step_defs fixture_defs constant_defs)

text \<open>
  Claim C3. In the deletion workflow, with no install job left and no managed DNS zone
  left, for a deployment with \<^verbatim>\<open>PreserveOnDelete\<close>: if it is installed, the workflow
  issues one write, the update that removes the finalizer, and no pass creates a
  deprovision request; if it is not installed and has an infra identifier, and no
  deprovision request exists yet, the first write of the workflow is the creation of the
  deprovision request built from the deployment, and when the store accepts it this is the
  only write and the pass is done.
\<close>

theorem C3_preserve_on_delete:
  assumes "\<not> sp_manage_dns (cd_spec cd)
           \<or> s_dns_zone s (cd_namespace cd, dnsZoneName e (cd_name cd)) = Not_Found"
      and "s_job s (cd_namespace cd, getInstallJobName e (cd_name cd)) = Not_Found"
      and "sp_preserve_on_delete (cd_spec cd)"
  shows "(st_installed (cd_status cd) \<and> HasFinalizer cd FinalizerDeprovision
          \<longrightarrow> syncDeletedClusterDeployment e s cd hiveImage =
                ([Update_CD (cd\<lparr>cd_finalizers := cd_finalizers cd - {FinalizerDeprovision}\<rparr>)],
                 (Done,
                  if s_refuses s
                       (Update_CD (cd\<lparr>cd_finalizers := cd_finalizers cd - {FinalizerDeprovision}\<rparr>))
                  then Some Store_Error else None)))
       \<and> (st_installed (cd_status cd)
          \<longrightarrow> K_Create_Request \<notin> kinds (fst (syncDeletedClusterDeployment e s cd hiveImage))
              \<and> K_Create_Request \<notin> kinds (fst (reconcile e s cd)))
       \<and> (\<not> st_installed (cd_status cd) \<and> st_infra_id (cd_status cd) \<noteq> []
            \<and> controllerReferenceError e Owned_Request = None
            \<and> s_request s (cd_namespace cd, cd_name cd) = Not_Found
          \<longrightarrow> (\<exists>ws out. syncDeletedClusterDeployment e s cd hiveImage =
                  (Create_Request ((generateDeprovisionRequest cd)\<lparr>dr_owner := Some (cd_name cd)\<rparr>)
                     # ws, out))
              \<and> (\<not> s_refuses s
                      (Create_Request ((generateDeprovisionRequest cd)\<lparr>dr_owner := Some (cd_name cd)\<rparr>))
                  \<longrightarrow> syncDeletedClusterDeployment e s cd hiveImage =
                        ([Create_Request
                            ((generateDeprovisionRequest cd)\<lparr>dr_owner := Some (cd_name cd)\<rparr>)],
                         (Done, None))))"
proof -
  have z: "ensureManagedDNSZoneDeleted e s cd = ([], None, None)"
    using assms(1) by (auto simp: ensureManagedDNSZoneDeleted_def)
  have 1: "syncDeletedClusterDeployment e s cd hiveImage =
                ([Update_CD (cd\<lparr>cd_finalizers := cd_finalizers cd - {FinalizerDeprovision}\<rparr>)],
                 (Done,
                  if s_refuses s
                       (Update_CD (cd\<lparr>cd_finalizers := cd_finalizers cd - {FinalizerDeprovision}\<rparr>))
                  then Some Store_Error else None))"
    if "st_installed (cd_status cd) \<and> HasFinalizer cd FinalizerDeprovision"
    using that z assms(2,3)
    by (simp add: syncDeletedClusterDeployment_def removeClusterDeploymentFinalizer_def
        DeleteFinalizer_def attempt_def)
  have 2: "K_Create_Request \<notin> kinds (fst (syncDeletedClusterDeployment e s cd hiveImage))
           \<and> K_Create_Request \<notin> kinds (fst (reconcile e s cd))"
    if i: "st_installed (cd_status cd)"
  proof -
    have a: "\<And>h. K_Create_Request \<notin> kinds (fst (syncDeletedClusterDeployment e s cd h))"
      using sync_no_request_if_preserved [OF assms(3) i] by blast
    have "K_Create_Request \<notin> kinds (fst (reconcile_run e s cd))"
    proof
      assume b: "K_Create_Request \<in> kinds (fst (reconcile_run e s cd))"
      then obtain h where
        "fst (reconcile_run e s cd) = fst (syncDeletedClusterDeployment e s cd h)"
        using request_only_from_sync by blast
      with a [of h] b show False by simp
    qed
    with a show ?thesis by (simp add: fst_reconcile)
  qed
  let ?req = "(generateDeprovisionRequest cd)\<lparr>dr_owner := Some (cd_name cd)\<rparr>"
  have 3: "(\<exists>ws out. syncDeletedClusterDeployment e s cd hiveImage = (Create_Request ?req # ws, out))
           \<and> (\<not> s_refuses s (Create_Request ?req)
                \<longrightarrow> syncDeletedClusterDeployment e s cd hiveImage =
                      ([Create_Request ?req], (Done, None)))"
    if "\<not> st_installed (cd_status cd) \<and> st_infra_id (cd_status cd) \<noteq> []
            \<and> controllerReferenceError e Owned_Request = None
            \<and> s_request s (cd_namespace cd, cd_name cd) = Not_Found"
    using that z assms(2,3)
    by (auto simp: syncDeletedClusterDeployment_def removeClusterDeploymentFinalizer_def Let_def
        split: fetched.splits)
  from 1 2 3 show ?thesis by blast
qed

theorem C3_preserve_on_delete_witness:
  "syncDeletedClusterDeployment test_env test_store testPreservedInstalled ''hive:latest'' =
     ([Update_CD (testPreservedInstalled\<lparr>cd_finalizers := {}\<rparr>)], (Done, None))
   \<and> K_Create_Request \<notin> kinds (fst (reconcile test_env test_store testPreservedInstalled))
   \<and> syncDeletedClusterDeployment test_env test_store testPreservedNotInstalled ''hive:latest'' =
       ([Create_Request testDeprovisionRequest], (Done, None))"
proof -
  have a1: "\<not> sp_manage_dns (cd_spec testPreservedInstalled)
           \<or> s_dns_zone test_store (cd_namespace testPreservedInstalled,
                dnsZoneName test_env (cd_name testPreservedInstalled)) = Not_Found"
    and a2: "s_job test_store (cd_namespace testPreservedInstalled,
                getInstallJobName test_env (cd_name testPreservedInstalled)) = Not_Found"
    and a3: "sp_preserve_on_delete (cd_spec testPreservedInstalled)"
    and a4: "st_installed (cd_status testPreservedInstalled)
             \<and> HasFinalizer testPreservedInstalled FinalizerDeprovision"
    and a5: "testPreservedInstalled
               \<lparr>cd_finalizers := cd_finalizers testPreservedInstalled - {FinalizerDeprovision}\<rparr>
             = testPreservedInstalled\<lparr>cd_finalizers := {}\<rparr>"
    and a6: "\<not> s_refuses test_store (Update_CD (testPreservedInstalled\<lparr>cd_finalizers := {}\<rparr>))"
    by (simp_all add: fixture_defs HasFinalizer_def)
  have b1: "\<not> sp_manage_dns (cd_spec testPreservedNotInstalled)
           \<or> s_dns_zone test_store (cd_namespace testPreservedNotInstalled,
                dnsZoneName test_env (cd_name testPreservedNotInstalled)) = Not_Found"
    and b2: "s_job test_store (cd_namespace testPreservedNotInstalled,
                getInstallJobName test_env (cd_name testPreservedNotInstalled)) = Not_Found"
    and b3: "sp_preserve_on_delete (cd_spec testPreservedNotInstalled)"
    and b4: "\<not> st_installed (cd_status testPreservedNotInstalled)
             \<and> st_infra_id (cd_status testPreservedNotInstalled) \<noteq> []
             \<and> controllerReferenceError test_env Owned_Request = None
             \<and> s_request test_store (cd_namespace testPreservedNotInstalled,
                  cd_name testPreservedNotInstalled) = Not_Found"
    and b5: "(generateDeprovisionRequest testPreservedNotInstalled)
               \<lparr>dr_owner := Some (cd_name testPreservedNotInstalled)\<rparr> = testDeprovisionRequest"
    and b6: "\<not> s_refuses test_store (Create_Request testDeprovisionRequest)"
    by (simp_all add: fixture_defs generateDeprovisionRequest_def)
  from C3_preserve_on_delete [OF a1 a2 a3, of "''hive:latest''"] a4 a5 a6
  have 1: "syncDeletedClusterDeployment test_env test_store testPreservedInstalled ''hive:latest'' =
     ([Update_CD (testPreservedInstalled\<lparr>cd_finalizers := {}\<rparr>)], (Done, None))
   \<and> K_Create_Request \<notin> kinds (fst (reconcile test_env test_store testPreservedInstalled))"
    by simp
  from C3_preserve_on_delete [OF b1 b2 b3, of "''hive:latest''"] b4 b5 b6
  have 2: "syncDeletedClusterDeployment test_env test_store testPreservedNotInstalled ''hive:latest'' =
       ([Create_Request testDeprovisionRequest], (Done, None))"
    by simp
  from 1 2 show ?thesis by simp
qed

subsection \<open>The dependency gate\<close>

lemma zone_created_only_for_aws:
  "K_Create_DNSZone \<in> kinds (fst (ensureManagedDNSZone e s cd))
   \<Longrightarrow> sp_aws (cd_spec cd) \<noteq> None \<and> sp_secrets_aws (cd_spec cd) \<noteq> None"
  by (auto simp: ensureManagedDNSZone_def split: if_splits)

lemma no_zone_installAndConverge:
  "K_Create_DNSZone \<notin> kinds (fst (installAndConverge e s cd origCD h r k ra existingJob))"
proof -
  obtain ws x where p: "installAndConverge e s cd origCD h r k ra existingJob = (ws, x)"
    by fastforce
  show ?thesis
  proof (cases existingJob)
    case None
    with p kinds_installAndConverge_None show ?thesis by fastforce
  next
    case (Some j)
    with p kinds_installAndConverge_Some show ?thesis by fastforce
  qed
qed

lemma zone_in_provision:
  assumes "K_Create_DNSZone \<in> kinds (fst (reconcileProvision e s cd origCD h r k ra))"
  shows "sp_manage_dns (cd_spec cd) \<and> sp_aws (cd_spec cd) \<noteq> None
         \<and> sp_secrets_aws (cd_spec cd) \<noteq> None"
proof (cases "sp_manage_dns (cd_spec cd)")
  case False
  then have "K_Create_DNSZone \<notin> kinds (fst (reconcileProvision e s cd origCD h r k ra))"
    using no_zone_installAndConverge
    by (auto simp: reconcileProvision_def case_prod_beta split: fetched.splits if_splits)
  with assms show ?thesis by simp
next
  case True
  have "K_Create_DNSZone \<in> kinds (fst (ensureManagedDNSZone e s cd))"
    using assms True no_zone_installAndConverge
    by (auto simp: reconcileProvision_def case_prod_beta
        split: fetched.splits if_splits option.splits bool.splits)
  with True zone_created_only_for_aws show ?thesis by blast
qed

lemma zone_only_from_provision:
  assumes "K_Create_DNSZone \<in> kinds (fst (reconcile_run e s cd))"
  shows "\<exists>h r k ra. fst (reconcile_run e s cd) = fst (reconcileProvision e s cd cd h r k ra)"
proof -
  have r: "\<And>i r h. K_Create_DNSZone \<notin> kinds (fst (resolveInstallerImage e s cd i r h))"
  proof -
    fix i r h
    show "K_Create_DNSZone \<notin> kinds (fst (resolveInstallerImage e s cd i r h))"
      using kinds_resolveInstallerImage [of e s cd i r h] by auto
  qed
  have p: "\<And>h. K_Create_DNSZone \<notin> kinds (fst (syncDeletedClusterDeployment e s cd h))"
  proof -
    fix h
    show "K_Create_DNSZone \<notin> kinds (fst (syncDeletedClusterDeployment e s cd h))"
      using kinds_syncDeletedClusterDeployment [of e s cd h] by auto
  qed
  from reconcile_run_origin [of e s cd] assms r p show ?thesis by auto
qed

text \<open>
  Claim C10. For a deployment that manages DNS and whose platform or platform secrets are
  not AWS: the dependency-gate check returns the error "only AWS managed DNS is
  supported" and issues no write; the pass, from the gate on, returns that error with no
  write, and so does the whole pass of a live deployment that the steps before the gate
  let through; no pass creates a DNS zone for it. For every deployment at all, a pass that
  creates a DNS zone is a pass of a deployment that manages DNS on AWS.
\<close>

theorem C10_managed_dns_only_aws:
  assumes "sp_manage_dns (cd_spec cd)"
      and "sp_aws (cd_spec cd) = None \<or> sp_secrets_aws (cd_spec cd) = None"
  shows "ensureManagedDNSZone e s cd = ([], False, Some Only_AWS_Managed_DNS)
       \<and> reconcileProvision e s cd origCD hiveImage releaseImage sshKey requeueAfter =
           ([], Inl (Done, Some Only_AWS_Managed_DNS))
       \<and> (cd_deletion_timestamp cd = None \<and> HasFinalizer cd FinalizerDeprovision
            \<and> (\<forall>i\<in>set (sp_ingress (cd_spec cd)). \<not> is_wildcard (ing_domain i))
            \<and> getClusterImageSet e s cd = ([], imageSet, False, None, cd)
            \<and> checkDeleteAfter e s cd = ([], Inr requeueAfter)
            \<and> sp_ssh_key (cd_spec cd) = Some sshKeyName
            \<and> s_secret_data s (cd_namespace cd, sshKeyName) adminSSHKeySecretKey = Inr sshKey
            \<and> st_installer_image (cd_status cd) \<noteq> None
          \<longrightarrow> reconcile e s cd = ([], (Done, Some Only_AWS_Managed_DNS)))
       \<and> K_Create_DNSZone \<notin> kinds (fst (reconcile e s cd))
       \<and> (K_Create_DNSZone \<in> kinds (fst (reconcile e' s' cd'))
          \<longrightarrow> sp_manage_dns (cd_spec cd') \<and> sp_aws (cd_spec cd') \<noteq> None
              \<and> sp_secrets_aws (cd_spec cd') \<noteq> None)"
proof -
  have 1: "ensureManagedDNSZone e s cd = ([], False, Some Only_AWS_Managed_DNS)"
    using assms(2) by (auto simp: ensureManagedDNSZone_def)
  have 2: "\<And>origCD hiveImage releaseImage sshKey requeueAfter.
      reconcileProvision e s cd origCD hiveImage releaseImage sshKey requeueAfter =
           ([], Inl (Done, Some Only_AWS_Managed_DNS))"
    using assms(1) 1 by (simp add: reconcileProvision_def)
  have 3: "reconcile e s cd = ([], (Done, Some Only_AWS_Managed_DNS))"
    if a: "cd_deletion_timestamp cd = None \<and> HasFinalizer cd FinalizerDeprovision
            \<and> (\<forall>i\<in>set (sp_ingress (cd_spec cd)). \<not> is_wildcard (ing_domain i))
            \<and> getClusterImageSet e s cd = ([], imageSet, False, None, cd)
            \<and> checkDeleteAfter e s cd = ([], Inr requeueAfter)
            \<and> sp_ssh_key (cd_spec cd) = Some sshKeyName
            \<and> s_secret_data s (cd_namespace cd, sshKeyName) adminSSHKeySecretKey = Inr sshKey
            \<and> st_installer_image (cd_status cd) \<noteq> None"
  proof -
    from a have m: "migrateWildcardIngress cd = (cd, False)"
      by (simp add: migrateWildcardIngress_none)
    show ?thesis using a m 2 by (auto simp: reconcile_def reconcile_run_def)
  qed
  have 5: "sp_manage_dns (cd_spec cd') \<and> sp_aws (cd_spec cd') \<noteq> None
              \<and> sp_secrets_aws (cd_spec cd') \<noteq> None"
    if b: "K_Create_DNSZone \<in> kinds (fst (reconcile e' s' cd'))" for e' s' cd'
  proof -
    from b have c: "K_Create_DNSZone \<in> kinds (fst (reconcile_run e' s' cd'))"
      by (simp add: fst_reconcile)
    then obtain h r k ra where
      "fst (reconcile_run e' s' cd') = fst (reconcileProvision e' s' cd' cd' h r k ra)"
      using zone_only_from_provision by blast
    with c have "K_Create_DNSZone \<in> kinds (fst (reconcileProvision e' s' cd' cd' h r k ra))"
      by simp
    then show ?thesis by (rule zone_in_provision)
  qed
  have 4: "K_Create_DNSZone \<notin> kinds (fst (reconcile e s cd))"
    using 5 [of e s cd] assms(2) by auto
  from 1 2 3 4 5 show ?thesis by blast
qed

text \<open>The deployment of the test "Create DNSZone when manageDNS is true", and the same
  deployment without the AWS platform.\<close>

theorem C10_managed_dns_only_aws_witness:
  "sp_manage_dns (cd_spec testManagedDNSNotAWS)
   \<and> sp_aws (cd_spec testManagedDNSNotAWS) = None
   \<and> ensureManagedDNSZone test_env test_store testManagedDNSNotAWS =
       ([], False, Some Only_AWS_Managed_DNS)
   \<and> reconcile test_env test_store testManagedDNSNotAWS =
       ([], (Done, Some Only_AWS_Managed_DNS))
   \<and> reconcile test_env test_store testManagedDNS =
       ([Create_DNSZone testCreatedDNSZone], (Done, None))
   \<and> sp_aws (cd_spec testManagedDNS) \<noteq> None
   \<and> sp_secrets_aws (cd_spec testManagedDNS) \<noteq> None"
proof -
  have 1: "sp_manage_dns (cd_spec testManagedDNSNotAWS)"
    and 2: "sp_aws (cd_spec testManagedDNSNotAWS) = None
            \<or> sp_secrets_aws (cd_spec testManagedDNSNotAWS) = None"
    and 3: "cd_deletion_timestamp testManagedDNSNotAWS = None
            \<and> HasFinalizer testManagedDNSNotAWS FinalizerDeprovision
            \<and> (\<forall>i\<in>set (sp_ingress (cd_spec testManagedDNSNotAWS)). \<not> is_wildcard (ing_domain i))
            \<and> getClusterImageSet test_env test_store testManagedDNSNotAWS =
                 ([], None, False, None, testManagedDNSNotAWS)
            \<and> checkDeleteAfter test_env test_store testManagedDNSNotAWS = ([], Inr 0)
            \<and> sp_ssh_key (cd_spec testManagedDNSNotAWS) = Some ''ssh-key''
            \<and> s_secret_data test_store (cd_namespace testManagedDNSNotAWS, ''ssh-key'')
                 adminSSHKeySecretKey = Inr ''fakesshkey''
            \<and> st_installer_image (cd_status testManagedDNSNotAWS) \<noteq> None"
    and 4: "sp_aws (cd_spec testManagedDNSNotAWS) = None"
    by (simp_all add: fixture_defs HasFinalizer_def getClusterImageSet_def checkDeleteAfter_def)
  have 5: "reconcile test_env test_store testManagedDNS =
       ([Create_DNSZone testCreatedDNSZone], (Done, None))"
    by (simp add: step_defs fixture_defs constant_defs)
  then have 6: "K_Create_DNSZone \<in> kinds (fst (reconcile test_env test_store testManagedDNS))"
    by simp
  from C10_managed_dns_only_aws [OF 1 2, where e = test_env and s = test_store
      and imageSet = None and requeueAfter = 0 and sshKeyName = "''ssh-key''"
      and sshKey = "''fakesshkey''" and e' = test_env and s' = test_store
      and cd' = testManagedDNS] 1 3 4 5 6
  show ?thesis by simp
qed

subsection \<open>A job that is being deleted\<close>

text \<open>
  Claim C8, at the failing input: the installer image of the deployment is not resolved,
  and its image-set job is finished and has a deletion timestamp. The pass does not wait:
  it issues the foreground delete of that job again and returns done, with no requeue.
  (The first case of the \<^verbatim>\<open>switch\<close> in \<^verbatim>\<open>resolveInstallerImage\<close> tests the deletion
  timestamp of the generated job, never that of the existing one.)
\<close>

theorem C8_resolver_job_deleted_again:
  "s_job (store_with_imageset_job testTerminatingImageSetJob) (''default'', ''foo-lqmsh-imageset'')
     = Found testTerminatingImageSetJob
   \<and> job_deletion_timestamp testTerminatingImageSetJob \<noteq> None
   \<and> reconcile test_env (store_with_imageset_job testTerminatingImageSetJob)
        testUnresolvedClusterDeployment =
        ([Delete_Job testTerminatingImageSetJob Foreground], (Done, None))"
  by (simp add: step_defs fixture_defs constant_defs)

text \<open>The install job, in contrast, is waited for: on the forward path and in the
  deletion workflow a job with a deletion timestamp ends the pass with a requeue after
  \<open>defaultRequeueTime\<close> and no write.\<close>

lemma install_job_mid_deletion_requeues:
  assumes "\<not> sp_manage_dns (cd_spec cd) \<or> ensureManagedDNSZone e s cd = ([], True, None)"
      and "s_job s (cd_namespace cd, getInstallJobName e (cd_name cd)) = Found j"
      and "job_deletion_timestamp j \<noteq> None"
  shows "reconcileProvision e s cd origCD hiveImage releaseImage sshKey requeueAfter =
           ([], Inl (Requeue_After defaultRequeueTime, None))"
  using assms by (auto simp: reconcileProvision_def)

lemma install_job_mid_deletion_requeues_when_deleted:
  assumes "\<not> sp_manage_dns (cd_spec cd)
           \<or> s_dns_zone s (cd_namespace cd, dnsZoneName e (cd_name cd)) = Not_Found"
      and "s_job s (cd_namespace cd, getInstallJobName e (cd_name cd)) = Found j"
      and "job_deletion_timestamp j \<noteq> None"
  shows "syncDeletedClusterDeployment e s cd hiveImage =
           ([], (Requeue_After defaultRequeueTime, None))"
  using assms by (auto simp: syncDeletedClusterDeployment_def ensureManagedDNSZoneDeleted_def)

subsection \<open>Status convergence\<close>

lemma installed_healAdminKubeconfigSecret:
  "st_installed (cd_status (healAdminKubeconfigSecret e cd)) = st_installed (cd_status cd)"
  by (simp add: healAdminKubeconfigSecret_def)

lemma installed_setAdminKubeconfigStatus:
  "setAdminKubeconfigStatus e cd sec = Inr cd'
   \<Longrightarrow> st_installed (cd_status cd') = st_installed (cd_status cd)"
  by (auto simp: setAdminKubeconfigStatus_def Let_def split: if_splits sum.splits option.splits)

lemma installed_syncAdminKubeconfig:
  "syncAdminKubeconfig e s cd = (ws, err, cd')
   \<Longrightarrow> st_installed (cd_status cd') = st_installed (cd_status cd)"
  by (auto simp: syncAdminKubeconfig_def dest: installed_setAdminKubeconfigStatus
      split: if_splits fetched.splits prod.splits option.splits sum.splits)

lemma installed_mirrorInstalled_Some:
  "job_name j \<noteq> [] \<Longrightarrow> job_namespace j \<noteq> []
   \<Longrightarrow> st_installed (cd_status (mirrorInstalled cd (Some j))) = job_successful j"
  by (simp add: mirrorInstalled_def)

lemma updateClusterDeploymentStatus_installed:
  assumes "updateClusterDeploymentStatus e s cd origCD existingJob = (ws, err, cd')"
  shows "st_installed (cd_status cd') = st_installed (cd_status (mirrorInstalled cd existingJob))"
proof -
  obtain ws0 err0 cd0 where
    s: "syncAdminKubeconfig e s (healAdminKubeconfigSecret e (mirrorInstalled cd existingJob))
          = (ws0, err0, cd0)"
    by (metis prod_cases3)
  then have "cd' = cd0" using assms
    by (auto simp: updateClusterDeploymentStatus_def split: option.splits if_splits)
  with installed_syncAdminKubeconfig [OF s] show ?thesis
    by (simp add: installed_healAdminKubeconfigSecret)
qed

lemma updateClusterDeploymentStatus_writes:
  assumes "updateClusterDeploymentStatus e s cd origCD existingJob = (ws, err, cd')"
  shows "(Status_Update c \<in> set ws \<longrightarrow> c = cd' \<and> cd_status cd' \<noteq> cd_status origCD)
       \<and> (err = None \<and> cd_status cd' \<noteq> cd_status origCD \<longrightarrow> Status_Update cd' \<in> set ws)"
proof -
  obtain ws0 err0 cd0 where
    s: "syncAdminKubeconfig e s (healAdminKubeconfigSecret e (mirrorInstalled cd existingJob))
          = (ws0, err0, cd0)"
    by (metis prod_cases3)
  have k: "kinds ws0 \<subseteq> {K_Update_Secret}" using s by (rule kinds_syncAdminKubeconfig)
  have n: "Status_Update c \<notin> set ws0"
  proof
    assume "Status_Update c \<in> set ws0"
    then have "kind_of (Status_Update c) \<in> kinds ws0" unfolding kinds_def by (rule imageI)
    with k show False by auto
  qed
  show ?thesis using assms s n
    by (auto simp: updateClusterDeploymentStatus_def attempt_def split: option.splits if_splits)
qed

lemma reconcileInstallJob_Inr:
  "reconcileInstallJob e s cd h r k existingJob = (ws, Inr cd')
   \<Longrightarrow> st_installed (cd_status cd') = st_installed (cd_status cd)"
  by (auto simp: reconcileInstallJob_def Let_def
      split: option.splits sum.splits prod.splits if_splits)

lemma ensureManagedDNSZone_True:
  "ensureManagedDNSZone e s cd = (ws, True, err) \<Longrightarrow> ws = []"
  by (auto simp: ensureManagedDNSZone_def
      split: option.splits fetched.splits prod.splits if_splits)

lemma reconcile_run_Inr_provision:
  assumes "reconcile_run e s cd = (ws, Inr ra)"
  shows "\<exists>h r k. reconcileProvision e s cd cd h r k ra = (ws, Inr ra)"
proof -
  have c: "checkDeleteAfter e s cd = ([], Inr ra)" and d: "cd_deletion_timestamp cd = None"
    and m: "migrateWildcardIngress cd = (cd, False)"
    using reconcile_run_Inr [OF assms] by simp_all
  obtain ws1 iset modified err cd1
    where g: "getClusterImageSet e s cd = (ws1, iset, modified, err, cd1)"
    by (metis prod_cases5)
  have ok: "\<not> modified" "err = None" using assms m g
    by (auto simp: reconcile_run_def split: if_splits)
  with g have "getClusterImageSet e s cd = (ws1, iset, False, None, cd1)" by simp
  then have p: "ws1 = []" "cd1 = cd" by (auto dest: getClusterImageSet_passes)
  have "reconcileProvision e s cd cd (getHiveImage e cd iset) (getReleaseImage cd iset)
          (case s_secret_data s (cd_namespace cd, the (sp_ssh_key (cd_spec cd)))
                  adminSSHKeySecretKey of Inr k \<Rightarrow> k | Inl x \<Rightarrow> []) ra = (ws, Inr ra)"
    using assms m g ok p c d
    by (auto simp: reconcile_run_def Let_def dest: reconcileProvision_Inr
        split: if_splits prod.splits sum.splits option.splits)
  then show ?thesis by blast
qed

lemma reconcileProvision_Inr_converge:
  assumes "reconcileProvision e s cd origCD h r k ra = (ws, Inr ra')"
  shows "s_job s (cd_namespace cd, getInstallJobName e (cd_name cd)) \<noteq> Fetch_Failed
       \<and> (\<forall>j. existing_job e s cd = Some j \<longrightarrow> job_deletion_timestamp j = None)
       \<and> installAndConverge e s cd origCD h r k ra (existing_job e s cd) = (ws, Inr ra')"
  using assms
  by (auto simp: reconcileProvision_def existing_job_def dest: ensureManagedDNSZone_True
      split: if_splits prod.splits option.splits fetched.splits bool.splits)

lemma installAndConverge_Inr:
  assumes "installAndConverge e s cd origCD h r k ra existingJob = (ws, Inr ra')"
  shows "\<exists>ws2 cd1 ws3 cd2.
           (if st_installed (cd_status cd) then ws2 = [] \<and> cd1 = cd
            else reconcileInstallJob e s cd h r k existingJob = (ws2, Inr cd1))
         \<and> updateClusterDeploymentStatus e s cd1 origCD existingJob = (ws3, None, cd2)
         \<and> ws = ws2 @ ws3"
  using assms
  by (auto simp: installAndConverge_def
      split: if_splits prod.splits option.splits sum.splits)

lemma reconcile_run_Inr_status:
  assumes "reconcile_run e s cd = (ws, Inr ra)"
  shows "\<exists>ws2 cd1 ws3 cd2.
           ws = ws2 @ ws3 \<and> K_Status_Update \<notin> kinds ws2
         \<and> st_installed (cd_status cd1) = st_installed (cd_status cd)
         \<and> updateClusterDeploymentStatus e s cd1 cd (existing_job e s cd) = (ws3, None, cd2)"
proof -
  obtain h r k where "reconcileProvision e s cd cd h r k ra = (ws, Inr ra)"
    using reconcile_run_Inr_provision [OF assms] by blast
  then have "installAndConverge e s cd cd h r k ra (existing_job e s cd) = (ws, Inr ra)"
    using reconcileProvision_Inr_converge by blast
  then obtain ws2 cd1 ws3 cd2 where
    i: "if st_installed (cd_status cd) then ws2 = [] \<and> cd1 = cd
        else reconcileInstallJob e s cd h r k (existing_job e s cd) = (ws2, Inr cd1)"
    and u: "updateClusterDeploymentStatus e s cd1 cd (existing_job e s cd) = (ws3, None, cd2)"
    and w: "ws = ws2 @ ws3"
    using installAndConverge_Inr by blast
  have k: "K_Status_Update \<notin> kinds ws2"
  proof (cases "st_installed (cd_status cd)")
    case True
    with i show ?thesis by simp
  next
    case False
    with i have j: "reconcileInstallJob e s cd h r k (existing_job e s cd) = (ws2, Inr cd1)"
      by simp
    show ?thesis
    proof (cases "existing_job e s cd")
      case None
      with j kinds_reconcileInstallJob_None show ?thesis by fastforce
    next
      case (Some a)
      with j kinds_reconcileInstallJob_Some show ?thesis by fastforce
    qed
  qed
  have "st_installed (cd_status cd1) = st_installed (cd_status cd)"
    using i reconcileInstallJob_Inr by (cases "st_installed (cd_status cd)") auto
  with w k u show ?thesis by blast
qed

text \<open>
  Claim C4 (as amended). Status convergence sets the installed flag to whether the install
  job it is given reports success, whenever that job has a name and a namespace, also
  when the flag was true before; with no job it leaves the flag as it was. For a pass that
  reaches its end: with a job observed, every status write of the pass carries the job's
  success as installed flag, and a status write is issued when the flag of the deployment
  differs from it; with no job observed, every status write carries the flag unchanged
  (deleting the job does not revert it).
\<close>

theorem C4_installed_mirrors_job:
  "(job_name j \<noteq> [] \<and> job_namespace j \<noteq> []
      \<longrightarrow> st_installed (cd_status (snd (snd
             (updateClusterDeploymentStatus e s cd origCD (Some j))))) = job_successful j)
   \<and> st_installed (cd_status (snd (snd (updateClusterDeploymentStatus e s cd origCD None))))
       = st_installed (cd_status cd)
   \<and> (reconcile_run e s cd = (ws, Inr ra) \<and> existing_job e s cd = Some j
        \<and> job_name j \<noteq> [] \<and> job_namespace j \<noteq> []
      \<longrightarrow> (\<forall>c. Status_Update c \<in> set ws \<longrightarrow> st_installed (cd_status c) = job_successful j)
          \<and> (st_installed (cd_status cd) \<noteq> job_successful j
              \<longrightarrow> (\<exists>c. Status_Update c \<in> set ws)))
   \<and> (reconcile_run e s cd = (ws, Inr ra) \<and> existing_job e s cd = None
      \<longrightarrow> (\<forall>c. Status_Update c \<in> set ws
                \<longrightarrow> st_installed (cd_status c) = st_installed (cd_status cd)))"
proof -
  have 1: "st_installed (cd_status (snd (snd
             (updateClusterDeploymentStatus e s cd origCD (Some j))))) = job_successful j"
    if "job_name j \<noteq> [] \<and> job_namespace j \<noteq> []"
  proof -
    obtain ws0 err0 cd0 where
      u: "updateClusterDeploymentStatus e s cd origCD (Some j) = (ws0, err0, cd0)"
      by (metis prod_cases3)
    from updateClusterDeploymentStatus_installed [OF u] that u show ?thesis
      by (simp add: installed_mirrorInstalled_Some)
  qed
  have 2: "st_installed (cd_status (snd (snd (updateClusterDeploymentStatus e s cd origCD None))))
       = st_installed (cd_status cd)"
  proof -
    obtain ws0 err0 cd0 where
      u: "updateClusterDeploymentStatus e s cd origCD None = (ws0, err0, cd0)"
      by (metis prod_cases3)
    from updateClusterDeploymentStatus_installed [OF u] u show ?thesis
      by (simp add: mirrorInstalled_def)
  qed
  have 3: "(\<forall>c. Status_Update c \<in> set ws \<longrightarrow> st_installed (cd_status c) = job_successful j)
          \<and> (st_installed (cd_status cd) \<noteq> job_successful j
              \<longrightarrow> (\<exists>c. Status_Update c \<in> set ws))"
    if a: "reconcile_run e s cd = (ws, Inr ra) \<and> existing_job e s cd = Some j
        \<and> job_name j \<noteq> [] \<and> job_namespace j \<noteq> []"
  proof -
    from a have r: "reconcile_run e s cd = (ws, Inr ra)" and ej: "existing_job e s cd = Some j"
      by simp_all
    from reconcile_run_Inr_status [OF r] ej obtain ws2 cd1 ws3 cd2 where
      w: "ws = ws2 @ ws3" and k: "K_Status_Update \<notin> kinds ws2"
      and u: "updateClusterDeploymentStatus e s cd1 cd (Some j) = (ws3, None, cd2)"
      by auto
    have n: "\<And>c. Status_Update c \<notin> set ws2"
    proof
      fix c assume "Status_Update c \<in> set ws2"
      then have "kind_of (Status_Update c) \<in> kinds ws2" unfolding kinds_def by (rule imageI)
      with k show False by simp
    qed
    have i: "st_installed (cd_status cd2) = job_successful j"
      using updateClusterDeploymentStatus_installed [OF u] a
      by (simp add: installed_mirrorInstalled_Some)
    have x: "\<And>c. Status_Update c \<in> set ws3 \<Longrightarrow> c = cd2"
      using updateClusterDeploymentStatus_writes [OF u] by blast
    have y: "cd_status cd2 \<noteq> cd_status cd \<Longrightarrow> Status_Update cd2 \<in> set ws3"
      using updateClusterDeploymentStatus_writes [OF u] by blast
    have p: "\<forall>c. Status_Update c \<in> set ws \<longrightarrow> st_installed (cd_status c) = job_successful j"
      using w n x i by auto
    have q: "\<exists>c. Status_Update c \<in> set ws" if "st_installed (cd_status cd) \<noteq> job_successful j"
    proof -
      from that i have "cd_status cd2 \<noteq> cd_status cd" by auto
      then have "Status_Update cd2 \<in> set ws3" by (rule y)
      with w show ?thesis by auto
    qed
    from p q show ?thesis by (intro conjI impI)
  qed
  have 4: "\<forall>c. Status_Update c \<in> set ws
                \<longrightarrow> st_installed (cd_status c) = st_installed (cd_status cd)"
    if a: "reconcile_run e s cd = (ws, Inr ra) \<and> existing_job e s cd = None"
  proof -
    from a have r: "reconcile_run e s cd = (ws, Inr ra)" and ej: "existing_job e s cd = None"
      by simp_all
    from reconcile_run_Inr_status [OF r] ej obtain ws2 cd1 ws3 cd2 where
      w: "ws = ws2 @ ws3" and k: "K_Status_Update \<notin> kinds ws2"
      and c1: "st_installed (cd_status cd1) = st_installed (cd_status cd)"
      and u: "updateClusterDeploymentStatus e s cd1 cd None = (ws3, None, cd2)"
      by auto
    have n: "\<And>c. Status_Update c \<notin> set ws2"
    proof
      fix c assume "Status_Update c \<in> set ws2"
      then have "kind_of (Status_Update c) \<in> kinds ws2" unfolding kinds_def by (rule imageI)
      with k show False by simp
    qed
    have i: "st_installed (cd_status cd2) = st_installed (cd_status cd)"
      using updateClusterDeploymentStatus_installed [OF u] c1 by (simp add: mirrorInstalled_def)
    have x: "\<And>c. Status_Update c \<in> set ws3 \<Longrightarrow> c = cd2"
      using updateClusterDeploymentStatus_writes [OF u] by blast
    show ?thesis using w n x i by auto
  qed
  show ?thesis
  proof (intro conjI)
    show "job_name j \<noteq> [] \<and> job_namespace j \<noteq> []
      \<longrightarrow> st_installed (cd_status (snd (snd
             (updateClusterDeploymentStatus e s cd origCD (Some j))))) = job_successful j"
      using 1 by (rule impI)
    show "st_installed (cd_status (snd (snd (updateClusterDeploymentStatus e s cd origCD None))))
       = st_installed (cd_status cd)"
      by (rule 2)
    show "reconcile_run e s cd = (ws, Inr ra) \<and> existing_job e s cd = Some j
        \<and> job_name j \<noteq> [] \<and> job_namespace j \<noteq> []
      \<longrightarrow> (\<forall>c. Status_Update c \<in> set ws \<longrightarrow> st_installed (cd_status c) = job_successful j)
          \<and> (st_installed (cd_status cd) \<noteq> job_successful j
              \<longrightarrow> (\<exists>c. Status_Update c \<in> set ws))"
      using 3 by (rule impI)
    show "reconcile_run e s cd = (ws, Inr ra) \<and> existing_job e s cd = None
      \<longrightarrow> (\<forall>c. Status_Update c \<in> set ws
                \<longrightarrow> st_installed (cd_status c) = st_installed (cd_status cd))"
      using 4 by (rule impI)
  qed
qed

text \<open>Claim C4 as stated fails: an installed deployment whose install job exists and does
  not report success (the fixtures of the test "Ignore old install job hash difference if
  cluster already installed") has its installed flag written back as false by the
  pass.\<close>

theorem C4_installed_reverted_counterexample:
  "st_installed (cd_status testInstalledClusterDeployment)
   \<and> s_job (store_with_job testInstallJob) (''default'', ''foo-lqmsh-install'')
       = Found testInstallJob
   \<and> \<not> job_successful testInstallJob
   \<and> reconcile test_env (store_with_job testInstallJob) testInstalledClusterDeployment =
       ([Status_Update (testInstalledClusterDeployment
           \<lparr>cd_status := (cd_status testInstalledClusterDeployment)\<lparr>st_installed := False\<rparr>\<rparr>)],
        (Done, None))"
  by (simp add: step_defs fixture_defs constant_defs)

text \<open>The completed job of the test "Completed install job", and the installed
  deployment with and without a job.\<close>

theorem C4_installed_mirrors_job_witness:
  "st_installed (cd_status (snd (snd
      (updateClusterDeploymentStatus test_env test_store testClusterDeployment
         testClusterDeployment (Some (testInstallJob\<lparr>job_successful := True\<rparr>))))))
   \<and> st_installed (cd_status (snd (snd
      (updateClusterDeploymentStatus test_env test_store testInstalledClusterDeployment
         testInstalledClusterDeployment None))))
   \<and> (\<exists>c. Status_Update c \<in> set (fst (reconcile_run test_env (store_with_job testInstallJob)
                                           testInstalledClusterDeployment)))
   \<and> reconcile_run test_env test_store testInstalledClusterDeployment = ([], Inr 0)"
proof -
  have a: "job_name (testInstallJob\<lparr>job_successful := True\<rparr>) \<noteq> []
           \<and> job_namespace (testInstallJob\<lparr>job_successful := True\<rparr>) \<noteq> []"
    and b: "job_successful (testInstallJob\<lparr>job_successful := True\<rparr>)"
    and c: "st_installed (cd_status testInstalledClusterDeployment)"
    by (simp_all add: fixture_defs)
  have d: "reconcile_run test_env (store_with_job testInstallJob) testInstalledClusterDeployment
           = ([Status_Update (testInstalledClusterDeployment
                \<lparr>cd_status := (cd_status testInstalledClusterDeployment)
                    \<lparr>st_installed := False\<rparr>\<rparr>)], Inr 0)
         \<and> existing_job test_env (store_with_job testInstallJob) testInstalledClusterDeployment
             = Some testInstallJob
         \<and> job_name testInstallJob \<noteq> [] \<and> job_namespace testInstallJob \<noteq> []"
    by (simp add: step_defs existing_job_def fixture_defs constant_defs)
  have f: "st_installed (cd_status testInstalledClusterDeployment) \<noteq> job_successful testInstallJob"
    by (simp add: fixture_defs)
  have g: "reconcile_run test_env test_store testInstalledClusterDeployment = ([], Inr 0)
           \<and> existing_job test_env test_store testInstalledClusterDeployment = None"
    by (simp add: step_defs existing_job_def fixture_defs constant_defs)
  from C4_installed_mirrors_job [where j = "testInstallJob\<lparr>job_successful := True\<rparr>"
      and e = test_env and s = test_store and cd = testClusterDeployment
      and origCD = testClusterDeployment] a b
  have 1: "st_installed (cd_status (snd (snd
      (updateClusterDeploymentStatus test_env test_store testClusterDeployment
         testClusterDeployment (Some (testInstallJob\<lparr>job_successful := True\<rparr>))))))"
    by simp
  from C4_installed_mirrors_job [where e = test_env and s = test_store
      and cd = testInstalledClusterDeployment and origCD = testInstalledClusterDeployment] c
  have 2: "st_installed (cd_status (snd (snd
      (updateClusterDeploymentStatus test_env test_store testInstalledClusterDeployment
         testInstalledClusterDeployment None))))"
    by simp
  from C4_installed_mirrors_job [where j = testInstallJob and e = test_env
      and s = "store_with_job testInstallJob" and cd = testInstalledClusterDeployment
      and ws = "[Status_Update (testInstalledClusterDeployment
                \<lparr>cd_status := (cd_status testInstalledClusterDeployment)
                    \<lparr>st_installed := False\<rparr>\<rparr>)]" and ra = 0] d f
  have 3: "\<exists>c. Status_Update c \<in> set (fst (reconcile_run test_env (store_with_job testInstallJob)
                                           testInstalledClusterDeployment))"
    by simp
  from 1 2 3 g show ?thesis by simp
qed

subsection \<open>The idempotency guard\<close>

lemma never_delete_and_create_job:
  "\<not> (K_Delete_Job \<in> kinds (fst (reconcile e s cd))
      \<and> K_Create_Job \<in> kinds (fst (reconcile e s cd)))"
proof
  assume a: "K_Delete_Job \<in> kinds (fst (reconcile e s cd))
      \<and> K_Create_Job \<in> kinds (fst (reconcile e s cd))"
  then have b: "K_Delete_Job \<in> kinds (fst (reconcile_run e s cd))"
    and c: "K_Create_Job \<in> kinds (fst (reconcile_run e s cd))"
    by (simp_all add: fst_reconcile)
  have r: "\<And>i r h. \<not> (K_Delete_Job \<in> kinds (fst (resolveInstallerImage e s cd i r h))
                      \<and> K_Create_Job \<in> kinds (fst (resolveInstallerImage e s cd i r h)))"
  proof -
    fix i r h
    show "\<not> (K_Delete_Job \<in> kinds (fst (resolveInstallerImage e s cd i r h))
                      \<and> K_Create_Job \<in> kinds (fst (resolveInstallerImage e s cd i r h)))"
      using kinds_resolveInstallerImage [of e s cd i r h] by auto
  qed
  have p: "\<And>h r k ra. \<not> (K_Delete_Job \<in> kinds (fst (reconcileProvision e s cd cd h r k ra))
                      \<and> K_Create_Job \<in> kinds (fst (reconcileProvision e s cd cd h r k ra)))"
  proof -
    fix h r k ra
    obtain ws x where "reconcileProvision e s cd cd h r k ra = (ws, x)" by fastforce
    then show "\<not> (K_Delete_Job \<in> kinds (fst (reconcileProvision e s cd cd h r k ra))
                      \<and> K_Create_Job \<in> kinds (fst (reconcileProvision e s cd cd h r k ra)))"
      using kinds_reconcileProvision by fastforce
  qed
  have q: "\<And>h. K_Create_Job \<notin> kinds (fst (syncDeletedClusterDeployment e s cd h))"
  proof -
    fix h
    show "K_Create_Job \<notin> kinds (fst (syncDeletedClusterDeployment e s cd h))"
      using kinds_syncDeletedClusterDeployment [of e s cd h] by auto
  qed
  from reconcile_run_origin [of e s cd] b c r p q show False by auto
qed

lemma deleteJobOnHashChange_decides:
  assumes "lookup (job_annotations generatedJob) jobHashAnnotation = Some jobHash"
  shows "deleteJobOnHashChange s existingJob generatedJob =
           (if lookup (job_annotations existingJob) jobHashAnnotation \<noteq> Some jobHash
            then ([Delete_Job existingJob Foreground], True,
                  if s_refuses s (Delete_Job existingJob Foreground)
                  then Some Store_Error else None)
            else ([], False, None))"
  using assms
  by (auto simp: deleteJobOnHashChange_def newJobNeeded_def lookup_or_empty_def attempt_def
      split: option.splits)

lemma reconcile_run_reaches:
  assumes "reaches_install_job e s cd imageSet sshKey ra"
  shows "reconcile_run e s cd =
           installAndConverge e s cd cd (getHiveImage e cd imageSet) (getReleaseImage cd imageSet)
             sshKey ra (existing_job e s cd)"
proof -
  have "\<forall>i\<in>set (sp_ingress (cd_spec cd)). \<not> is_wildcard (ing_domain i)"
    using assms by (simp add: reaches_install_job_def list_all_iff)
  then have m: "migrateWildcardIngress cd = (cd, False)" by (rule migrateWildcardIngress_none)
  have p: "reconcileProvision e s cd cd (getHiveImage e cd imageSet) (getReleaseImage cd imageSet)
             sshKey ra =
           installAndConverge e s cd cd (getHiveImage e cd imageSet) (getReleaseImage cd imageSet)
             sshKey ra (existing_job e s cd)"
    using assms
    by (auto simp: reaches_install_job_def reconcileProvision_def existing_job_def
        split: fetched.splits if_splits)
  show ?thesis using assms m p
    by (auto simp: reaches_install_job_def reconcile_run_def)
qed

lemma getClusterImageSet_frame:
  "s_image_set s' = s_image_set s \<Longrightarrow> s_refuses s' = s_refuses s
   \<Longrightarrow> getClusterImageSet e s' cd = getClusterImageSet e s cd"
  by (auto simp: getClusterImageSet_def setImageSetNotFoundCondition_def attempt_def Let_def
      split: option.splits fetched.splits)

lemma checkDeleteAfter_frame:
  "s_refuses s' = s_refuses s \<Longrightarrow> checkDeleteAfter e s' cd = checkDeleteAfter e s cd"
  by (auto simp: checkDeleteAfter_def attempt_def Let_def split: option.splits sum.splits)

lemma ensureManagedDNSZone_frame:
  "s_dns_zone s' = s_dns_zone s \<Longrightarrow> s_refuses s' = s_refuses s
   \<Longrightarrow> ensureManagedDNSZone e s' cd = ensureManagedDNSZone e s cd"
  by (auto simp: ensureManagedDNSZone_def createManagedDNSZone_def attempt_def Let_def
      split: option.splits fetched.splits prod.splits)

lemma reaches_install_job_frame:
  assumes "reaches_install_job e s cd imageSet sshKey ra"
      and "s_image_set s' = s_image_set s" and "s_refuses s' = s_refuses s"
      and "s_secret_data s' = s_secret_data s" and "s_dns_zone s' = s_dns_zone s"
      and "s_job s' (cd_namespace cd, getInstallJobName e (cd_name cd)) = Not_Found"
  shows "reaches_install_job e s' cd imageSet sshKey ra"
proof -
  have 1: "getClusterImageSet e s' cd = getClusterImageSet e s cd"
    using assms(2,3) by (rule getClusterImageSet_frame)
  have 2: "checkDeleteAfter e s' cd = checkDeleteAfter e s cd"
    using assms(3) by (rule checkDeleteAfter_frame)
  have 3: "ensureManagedDNSZone e s' cd = ensureManagedDNSZone e s cd"
    using assms(5,3) by (rule ensureManagedDNSZone_frame)
  show ?thesis
    using assms(1,4,6) unfolding reaches_install_job_def 1 2 3 existing_job_def
    by simp
qed

lemma reconcileInstallJob_hashless:
  assumes g: "install_job_generated e s cd imageSet sshKey job0 cfgMap0 jobHash"
      and c: "s_config_map s (cm_namespace cfgMap0, cm_name cfgMap0) \<noteq> Fetch_Failed"
      and a: "\<forall>a. \<not> s_refuses s a"
      and h: "lookup (job_annotations j) jobHashAnnotation = None"
      and o: "\<forall>g. lookup (cm_annotations cfgMap0) clusterDeploymentGenerationAnnotation = Some g
                \<longrightarrow> cd_generation cd \<le> parseInt e g"
  shows "reconcileInstallJob e s cd (getHiveImage e cd imageSet) (getReleaseImage cd imageSet)
           sshKey (Some j) =
         ((if s_config_map s (cm_namespace cfgMap0, cm_name cfgMap0) = Not_Found
           then [Create_ConfigMap (owned_config_map cd cfgMap0)] else [])
          @ [Delete_Job j Foreground], Inl (Done, None))"
  using assms
  by (auto simp: install_job_generated_def reconcileInstallJob_def calculateJobSpecHash_def
      owned_config_map_def Let_def updateOutdatedConfigurations_def deleteJobOnHashChange_def
      newJobNeeded_def attempt_def calcInstallPodRestarts_def
      split: sum.splits option.splits)

lemma reconcileInstallJob_create:
  assumes g: "install_job_generated e s cd imageSet sshKey job0 cfgMap0 jobHash"
      and c: "s_config_map s (cm_namespace cfgMap0, cm_name cfgMap0) = Found existingCfgMap"
      and a: "\<forall>a. \<not> s_refuses s a"
  shows "reconcileInstallJob e s cd (getHiveImage e cd imageSet) (getReleaseImage cd imageSet)
           sshKey None =
         ([Setup_ServiceAccount (cd_namespace cd), Create_Job (annotated_job cd job0 jobHash)],
          Inr cd)"
  using assms
  by (auto simp: install_job_generated_def reconcileInstallJob_def calculateJobSpecHash_def
      annotated_job_def Let_def)

lemma hashless_first_pass:
  assumes r: "reaches_install_job e s cd imageSet sshKey ra"
      and i: "\<not> st_installed (cd_status cd)"
      and g: "install_job_generated e s cd imageSet sshKey job0 cfgMap0 jobHash"
      and c: "s_config_map s (cm_namespace cfgMap0, cm_name cfgMap0) \<noteq> Fetch_Failed"
      and a: "\<forall>a. \<not> s_refuses s a"
      and j: "s_job s (cd_namespace cd, getInstallJobName e (cd_name cd)) = Found j"
      and h: "lookup (job_annotations j) jobHashAnnotation = None"
      and o: "\<forall>g. lookup (cm_annotations cfgMap0) clusterDeploymentGenerationAnnotation = Some g
                \<longrightarrow> cd_generation cd \<le> parseInt e g"
  shows "reconcile e s cd =
           ((if s_config_map s (cm_namespace cfgMap0, cm_name cfgMap0) = Not_Found
             then [Create_ConfigMap (owned_config_map cd cfgMap0)] else [])
            @ [Delete_Job j Foreground], (Done, None))"
proof -
  have ej: "existing_job e s cd = Some j" using j by (simp add: existing_job_def)
  have "reconcile_run e s cd =
          installAndConverge e s cd cd (getHiveImage e cd imageSet) (getReleaseImage cd imageSet)
            sshKey ra (Some j)"
    using reconcile_run_reaches [OF r] ej by simp
  also have "\<dots> = ((if s_config_map s (cm_namespace cfgMap0, cm_name cfgMap0) = Not_Found
             then [Create_ConfigMap (owned_config_map cd cfgMap0)] else [])
            @ [Delete_Job j Foreground], Inl (Done, None))"
    using i reconcileInstallJob_hashless [OF g c a h o]
    by (simp add: installAndConverge_def)
  finally show ?thesis by (simp add: reconcile_def)
qed

lemma hashless_second_pass:
  assumes r: "reaches_install_job e s cd imageSet sshKey ra"
      and i: "\<not> st_installed (cd_status cd)"
      and g: "install_job_generated e s cd imageSet sshKey job0 cfgMap0 jobHash"
      and c: "s_config_map s (cm_namespace cfgMap0, cm_name cfgMap0) \<noteq> Fetch_Failed"
      and a: "\<forall>a. \<not> s_refuses s a"
      and j: "s_job s (cd_namespace cd, getInstallJobName e (cd_name cd)) = Found j"
      and k: "job_namespace j = cd_namespace cd \<and> job_name j = getInstallJobName e (cd_name cd)"
      and w: "ws = (if s_config_map s (cm_namespace cfgMap0, cm_name cfgMap0) = Not_Found
                    then [Create_ConfigMap (owned_config_map cd cfgMap0)] else [])
                   @ [Delete_Job j Foreground]"
  shows "s_cluster_deployment (store_after s ws) = s_cluster_deployment s
       \<and> s_job (store_after s ws) (cd_namespace cd, getInstallJobName e (cd_name cd)) = Not_Found
       \<and> fst (reconcile e (store_after s ws) cd) =
           Setup_ServiceAccount (cd_namespace cd) # Create_Job (annotated_job cd job0 jobHash)
           # fst (updateClusterDeploymentStatus e (store_after s ws) cd cd None)"
proof -
  let ?s = "store_after s ws"
  have f1: "s_image_set ?s = s_image_set s" and f2: "s_refuses ?s = s_refuses s"
    and f3: "s_secret_data ?s = s_secret_data s" and f4: "s_dns_zone ?s = s_dns_zone s"
    and f5: "s_cluster_deployment ?s = s_cluster_deployment s"
    using a w by (simp_all add: store_after_def apply_action_def)
  have f6: "s_job ?s (cd_namespace cd, getInstallJobName e (cd_name cd)) = Not_Found"
    using a w k by (simp add: store_after_def apply_action_def)
  have f7: "\<exists>existingCfgMap.
      s_config_map ?s (cm_namespace cfgMap0, cm_name cfgMap0) = Found existingCfgMap"
    using a w c
    by (cases "s_config_map s (cm_namespace cfgMap0, cm_name cfgMap0)")
       (simp_all add: store_after_def apply_action_def owned_config_map_def)
  then obtain existingCfgMap where
    f8: "s_config_map ?s (cm_namespace cfgMap0, cm_name cfgMap0) = Found existingCfgMap"
    by blast
  have a': "\<forall>a. \<not> s_refuses ?s a" using a f2 by simp
  have g': "install_job_generated e ?s cd imageSet sshKey job0 cfgMap0 jobHash"
    using g f3 by (simp add: install_job_generated_def)
  have r': "reaches_install_job e ?s cd imageSet sshKey ra"
    using r f1 f2 f3 f4 f6 by (rule reaches_install_job_frame)
  have ej: "existing_job e ?s cd = None" using f6 by (simp add: existing_job_def)
  have "reconcile_run e ?s cd =
          installAndConverge e ?s cd cd (getHiveImage e cd imageSet) (getReleaseImage cd imageSet)
            sshKey ra None"
    using reconcile_run_reaches [OF r'] ej by simp
  then have "fst (reconcile_run e ?s cd) =
      Setup_ServiceAccount (cd_namespace cd) # Create_Job (annotated_job cd job0 jobHash)
           # fst (updateClusterDeploymentStatus e ?s cd cd None)"
    using i reconcileInstallJob_create [OF g' f8 a']
    by (simp add: installAndConverge_def split: prod.splits option.splits)
  with f5 f6 show ?thesis by (simp add: fst_reconcile)
qed

end
